theory Spec2Isabelle
  imports Complex_Main
begin

section \<open>JavaScript values, strings and exceptions\<close>

text \<open>
  The services receive text from a language-model backend and hand it to \<^verbatim>\<open>JSON.parse\<close>.
  A parsed value is a \<open>json\<close>; \<open>None :: json option\<close> stands for \<^verbatim>\<open>undefined\<close>.
  A number is finite (\<open>JNum\<close>) or one of the two infinities (\<open>JInfinity\<close>, \<open>True\<close> for the
  positive one) that \<^verbatim>\<open>JSON.parse\<close> gives for a literal beyond the range of a double, such as
  \<^verbatim>\<open>1e400\<close>.
  Strings are sequences of 8-bit code units (the Latin-1 range of JavaScript's code units);
  characters beyond that range cannot be written: the warning sign and the blank that open
  one error message of the proxy client are left out of it.
\<close>

datatype json =
    JNull
  | JBool bool
  | JNum rat
  | JInfinity bool
  | JStr string
  | JArr "json list"
  | JObj "(string \<times> json) list"

text \<open>
  A thrown value is a standard \<^verbatim>\<open>Error\<close> object (with the name of its class and its
  message) or any other value. \<^verbatim>\<open>e instanceof Error\<close> holds for the first form only.
\<close>

datatype thrown =
    Error (err_name: string) (message: string)
  | NonError json

fun instanceof_Error :: "thrown \<Rightarrow> bool" where
  "instanceof_Error (Error n m) = True"
| "instanceof_Error (NonError v) = False"

text \<open>\<^verbatim>\<open>try { body } catch (e) { handler(e) }\<close> on results.\<close>

definition try_catch :: "thrown + 'a \<Rightarrow> (thrown \<Rightarrow> thrown + 'a) \<Rightarrow> thrown + 'a" where
  "try_catch body handler = (case body of Inl e \<Rightarrow> handler e | Inr v \<Rightarrow> Inr v)"

text \<open>Truthiness of a value, as \<^verbatim>\<open>!x\<close> and \<^verbatim>\<open>a || b\<close> test it.\<close>

fun truthy :: "json option \<Rightarrow> bool" where
  "truthy None = False"
| "truthy (Some JNull) = False"
| "truthy (Some (JBool b)) = b"
| "truthy (Some (JNum n)) = (n \<noteq> 0)"
| "truthy (Some (JInfinity positive)) = True"
| "truthy (Some (JStr s)) = (s \<noteq> [])"
| "truthy (Some (JArr xs)) = True"
| "truthy (Some (JObj kvs)) = True"

definition or_js :: "json option \<Rightarrow> json option \<Rightarrow> json option" where
  "or_js a b = (if truthy a then a else b)"

text \<open>
  Optional chaining: \<^verbatim>\<open>x?.k\<close> for the property names the services read (none of them is
  a built-in property of strings or arrays) and \<^verbatim>\<open>x?.[0]\<close>.
\<close>

fun get_prop :: "json option \<Rightarrow> string \<Rightarrow> json option" where
  "get_prop (Some (JObj kvs)) k = map_of kvs k"
| "get_prop x k = None"

fun get_index0 :: "json option \<Rightarrow> json option" where
  "get_index0 (Some (JArr xs)) = (case xs of [] \<Rightarrow> None | x # rest \<Rightarrow> Some x)"
| "get_index0 (Some (JStr s)) = (case s of [] \<Rightarrow> None | c # rest \<Rightarrow> Some (JStr [c]))"
| "get_index0 (Some (JObj kvs)) = map_of kvs ''0''"
| "get_index0 x = None"

text \<open>\<^verbatim>\<open>data?.candidates?.[0]?.content?.parts?.[0]?.text\<close>\<close>

definition candidate_text :: "json option \<Rightarrow> json option" where
  "candidate_text data =
     get_prop (get_index0 (get_prop (get_prop (get_index0 (get_prop data ''candidates''))
       ''content'') ''parts'')) ''text''"

text \<open>
  \<^verbatim>\<open>JSON.stringify\<close>, as the value its output denotes to the receiver that parses it: an
  infinite number is written \<^verbatim>\<open>null\<close>, at any depth; every other parsed value is written
  as it is.
\<close>

primrec serialised :: "json \<Rightarrow> json" where
  "serialised JNull = JNull"
| "serialised (JBool b) = JBool b"
| "serialised (JNum n) = JNum n"
| "serialised (JInfinity positive) = JNull"
| "serialised (JStr s) = JStr s"
| "serialised (JArr xs) = JArr (map serialised xs)"
| "serialised (JObj kvs) = JObj (map (map_prod id serialised) kvs)"

text \<open>
  \<^verbatim>\<open>String.prototype.trim\<close> removes white space and line terminators from both ends:
  TAB, LF, VT, FF, CR, SP and NBSP among the 8-bit code units.
\<close>

definition is_space :: "char \<Rightarrow> bool" where
  "is_space c = (c \<in> set [CHR 0x09, CHR 0x0A, CHR 0x0B, CHR 0x0C, CHR 0x0D, CHR 0x20, CHR 0xA0])"

definition trim :: "string \<Rightarrow> string" where
  "trim s = rev (dropWhile is_space (rev (dropWhile is_space s)))"

text \<open>\<^verbatim>\<open>Array.prototype.join\<close>\<close>

fun join :: "string \<Rightarrow> string list \<Rightarrow> string" where
  "join sep [] = []"
| "join sep [x] = x"
| "join sep (x # y # ys) = x @ sep @ join sep (y # ys)"

text \<open>Decimal rendering of a number inside a template string.\<close>

fun show_nat :: "nat \<Rightarrow> string" where
  "show_nat n = (if n < 10 then [''0123456789'' ! n]
                 else show_nat (n div 10) @ [''0123456789'' ! (n mod 10)])"

text \<open>
  \<^verbatim>\<open>JSON.parse\<close> belongs to the platform. Every service takes it from its environment as a
  function from texts to values, \<open>None\<close> standing for the \<^verbatim>\<open>SyntaxError\<close> it throws.
\<close>

record platform =
  JSON_parse :: "string \<Rightarrow> json option"

definition SyntaxError :: thrown where
  "SyntaxError = Error ''SyntaxError'' ''Unexpected token in JSON''"

definition parse_json :: "'a platform_scheme \<Rightarrow> string \<Rightarrow> thrown + json" where
  "parse_json P s = (case JSON_parse P s of None \<Rightarrow> Inl SyntaxError | Some v \<Rightarrow> Inr v)"


section \<open>The direct client: services/paperService.ts\<close>

text \<open>
  The SDK's response object, as far as the services read it: the prompt feedback with its
  block reason and safety ratings, and the \<^verbatim>\<open>text\<close> accessor (\<open>None\<close> when undefined).
\<close>

record SafetyRating =
  category :: string
  blocked :: bool

record PromptFeedback =
  blockReason :: "string option"
  safetyRatings :: "SafetyRating list option"

record GenerateContentResponse =
  promptFeedback :: "PromptFeedback option"
  response_text :: "string option"

text \<open>
  The typed input of the single-shot transforms. \<open>paper_id\<close> is the field \<^verbatim>\<open>id\<close>.
\<close>

record Paper =
  paper_id :: string
  title :: string
  authors :: "string list"
  year :: rat
  abstract :: string
  citationCount :: rat
  tldr :: string

text \<open>
  A prompt is a fixed template with interpolated arguments. The wording of a template plays
  no part in control flow, so a prompt is the template's name with its arguments; a backend
  answering by the rendered text is a special case of one answering by this value.
  The same holds for the response schema sent with a request.
\<close>

datatype prompt =
    RawPaperDataPrompt string
  | FormatPaperDataPrompt string
  | SuggestionsPrompt string
  | ComparisonPrompt "Paper list"
  | KnowledgeGraphPrompt "Paper list"
  | SinglePaperAnalysisPrompt Paper

datatype schema =
    PaperArraySchema
  | StringArraySchema
  | ComparisonSchema
  | KnowledgeGraphSchema
  | SinglePaperAnalysisSchema

datatype config =
    GoogleSearchTool
  | JsonResponse schema

record request =
  model :: string
  contents :: prompt
  config :: config

record GoogleGenAI =
  apiKey :: string

text \<open>
  The environment of the direct client: \<^verbatim>\<open>process.env\<close> (\<open>None\<close> when \<^verbatim>\<open>process\<close> itself is
  not defined), and the backend behind \<^verbatim>\<open>ai.models.generateContent\<close>, which resolves with
  a response or rejects with a thrown value.
\<close>

record sdk_env = platform +
  process_env :: "(string \<Rightarrow> string option) option"
  generateContent :: "GoogleGenAI \<Rightarrow> request \<Rightarrow> thrown + GenerateContentResponse"

definition getAi_error :: thrown where
  "getAi_error = Error ''Error''
     (''Configuration Error: The API_KEY is not available. '' @ [CHR 0x0A, CHR 0x0A] @
      ''If you have deployed this application, please ensure that the API_KEY environment variable is correctly set in your hosting provider'' @ [CHR 0x27] @ ''s settings (e.g., Vercel, Netlify). '' @ [CHR 0x0A, CHR 0x0A] @
      ''The application cannot function without the API key.'')"

definition getAi :: "'a sdk_env_scheme \<Rightarrow> thrown + GoogleGenAI" where
  "getAi E =
     (let key = (case process_env E of None \<Rightarrow> None | Some vars \<Rightarrow> vars ''API_KEY'')
      in case key of
           None \<Rightarrow> Inl getAi_error
         | Some k \<Rightarrow> if k = [] then Inl getAi_error else Inr \<lparr>apiKey = k\<rparr>)"

text \<open>Stage 1: retrieval of unstructured text.\<close>

definition blockedCategories :: "SafetyRating list option \<Rightarrow> string" where
  "blockedCategories ratings =
     (case ratings of
        None \<Rightarrow> ''N/A''
      | Some rs \<Rightarrow>
          (let joined = join '', '' (map category (filter blocked rs))
           in if joined = [] then ''N/A'' else joined))"

definition safety_error :: "string \<Rightarrow> string \<Rightarrow> thrown" where
  "safety_error reason categories = Error ''Error''
     (''Search failed: The query was blocked for safety reasons.'' @ [CHR 0x0A] @
      ''Reason: '' @ reason @ ''.'' @ [CHR 0x0A] @
      ''Categories: '' @ categories @ ''.'')"

definition getRawPaperData_request :: "string \<Rightarrow> request" where
  "getRawPaperData_request query =
     \<lparr>model = ''gemini-2.5-pro'', contents = RawPaperDataPrompt query, config = GoogleSearchTool\<rparr>"

definition getRawPaperData_text :: "GenerateContentResponse \<Rightarrow> thrown + string" where
  "getRawPaperData_text response =
     (case response_text response of
        None \<Rightarrow> Inr []
      | Some t \<Rightarrow> if trim t = [] then Inr [] else Inr (trim t))"

definition getRawPaperData_try :: "thrown + GenerateContentResponse \<Rightarrow> thrown + string" where
  "getRawPaperData_try answer =
     (case answer of
        Inl e \<Rightarrow> Inl e
      | Inr response \<Rightarrow>
          (case promptFeedback response of
             None \<Rightarrow> getRawPaperData_text response
           | Some pf \<Rightarrow>
               (case blockReason pf of
                  None \<Rightarrow> getRawPaperData_text response
                | Some reason \<Rightarrow>
                    if reason \<noteq> []
                    then Inl (safety_error reason (blockedCategories (safetyRatings pf)))
                    else getRawPaperData_text response)))"

text \<open>
  Every operation returns its result together with the requests it sent, in order.
\<close>

definition getRawPaperData ::
  "'a sdk_env_scheme \<Rightarrow> GoogleGenAI \<Rightarrow> string \<Rightarrow> (thrown + string) \<times> request list" where
  "getRawPaperData E ai query =
     (try_catch (getRawPaperData_try (generateContent E ai (getRawPaperData_request query)))
        (\<lambda>e. Inl e),
      [getRawPaperData_request query])"

text \<open>Stage 2: structuring.\<close>

definition formatPaperData_error :: thrown where
  "formatPaperData_error =
     Error ''Error'' ''The AI failed to format the search results. This may be a temporary issue.''"

definition TypeError_trim :: thrown where
  "TypeError_trim =
     Error ''TypeError'' ''Cannot read properties of undefined (reading trim)''"

definition formatPaperData_request :: "string \<Rightarrow> request" where
  "formatPaperData_request rawData =
     \<lparr>model = ''gemini-2.5-flash'', contents = FormatPaperDataPrompt rawData,
      config = JsonResponse PaperArraySchema\<rparr>"

text \<open>
  \<^verbatim>\<open>JSON.parse(response.text.trim())\<close>, shared by stage 2 and the single-shot transforms.
\<close>

definition parse_response_text ::
  "'a platform_scheme \<Rightarrow> thrown + GenerateContentResponse \<Rightarrow> thrown + json" where
  "parse_response_text P answer =
     (case answer of
        Inl e \<Rightarrow> Inl e
      | Inr response \<Rightarrow>
          (case response_text response of
             None \<Rightarrow> Inl TypeError_trim
           | Some t \<Rightarrow> parse_json P (trim t)))"

definition formatPaperData ::
  "'a sdk_env_scheme \<Rightarrow> GoogleGenAI \<Rightarrow> string \<Rightarrow> (thrown + json) \<times> request list" where
  "formatPaperData E ai rawData =
     (if trim rawData = [] then (Inr (JArr []), [])
      else
        (try_catch (parse_response_text E (generateContent E ai (formatPaperData_request rawData)))
           (\<lambda>e. Inl formatPaperData_error),
         [formatPaperData_request rawData]))"

text \<open>The orchestrator.\<close>

definition searchPapers_error :: thrown where
  "searchPapers_error = Error ''Error'' ''An unexpected error occurred during the paper search.''"

definition searchPapers_catch :: "thrown \<Rightarrow> thrown + json" where
  "searchPapers_catch e = (if instanceof_Error e then Inl e else Inl searchPapers_error)"

definition searchPapers :: "'a sdk_env_scheme \<Rightarrow> string \<Rightarrow> (thrown + json) \<times> request list" where
  "searchPapers E query =
     (case getAi E of
        Inl e \<Rightarrow> (Inl e, [])
      | Inr ai \<Rightarrow>
          (case getRawPaperData E ai query of
             (Inl e, calls1) \<Rightarrow> (searchPapers_catch e, calls1)
           | (Inr rawData, calls1) \<Rightarrow>
               (case formatPaperData E ai rawData of
                  (Inl e, calls2) \<Rightarrow> (searchPapers_catch e, calls1 @ calls2)
                | (Inr papers, calls2) \<Rightarrow> (Inr papers, calls1 @ calls2))))"


section \<open>The direct client: services/geminiService.ts\<close>

definition getClient_error :: thrown where
  "getClient_error = Error ''Error''
     ''Configuration Error: The API_KEY environment variable is not set. Please ensure it is configured in your environment. The application cannot function without it.''"

definition ReferenceError_process :: thrown where
  "ReferenceError_process = Error ''ReferenceError'' ''process is not defined''"

definition getClient :: "'a sdk_env_scheme \<Rightarrow> thrown + GoogleGenAI" where
  "getClient E =
     (case process_env E of
        None \<Rightarrow> Inl ReferenceError_process
      | Some vars \<Rightarrow>
          (case vars ''GEMINI_API_KEY'' of
             None \<Rightarrow> Inl getClient_error
           | Some k \<Rightarrow> if k = [] then Inl getClient_error else Inr \<lparr>apiKey = k\<rparr>))"

text \<open>
  The four transforms share the body of their \<^verbatim>\<open>try\<close> block: acquire the client, send one
  request, parse the trimmed text of the response. They differ in the request and in the
  \<^verbatim>\<open>catch\<close> handler.
\<close>

definition generate_try ::
  "'a sdk_env_scheme \<Rightarrow> request \<Rightarrow> (thrown + json) \<times> request list" where
  "generate_try E req =
     (case getClient E of
        Inl e \<Rightarrow> (Inl e, [])
      | Inr ai \<Rightarrow> (parse_response_text E (generateContent E ai req), [req]))"

definition generateSuggestions_request :: "string \<Rightarrow> request" where
  "generateSuggestions_request query =
     \<lparr>model = ''gemini-2.5-flash'', contents = SuggestionsPrompt query,
      config = JsonResponse StringArraySchema\<rparr>"

definition generateSuggestions ::
  "'a sdk_env_scheme \<Rightarrow> string \<Rightarrow> (thrown + json) \<times> request list" where
  "generateSuggestions E query =
     (case generate_try E (generateSuggestions_request query) of
        (outcome, calls) \<Rightarrow> (try_catch outcome (\<lambda>e. Inr (JArr [])), calls))"

definition generateComparison_error :: thrown where
  "generateComparison_error =
     Error ''Error'' ''Failed to generate the paper comparison due to an AI processing error.''"

definition generateComparison_request :: "Paper list \<Rightarrow> request" where
  "generateComparison_request papers =
     \<lparr>model = ''gemini-2.5-pro'', contents = ComparisonPrompt papers,
      config = JsonResponse ComparisonSchema\<rparr>"

definition generateComparison ::
  "'a sdk_env_scheme \<Rightarrow> Paper list \<Rightarrow> (thrown + json) \<times> request list" where
  "generateComparison E papers =
     (case generate_try E (generateComparison_request papers) of
        (outcome, calls) \<Rightarrow> (try_catch outcome (\<lambda>e. Inl generateComparison_error), calls))"

definition generateKnowledgeGraph_error :: thrown where
  "generateKnowledgeGraph_error =
     Error ''Error'' ''Failed to generate the knowledge graph due to an AI processing error.''"

definition generateKnowledgeGraph_request :: "Paper list \<Rightarrow> request" where
  "generateKnowledgeGraph_request papers =
     \<lparr>model = ''gemini-2.5-flash'', contents = KnowledgeGraphPrompt papers,
      config = JsonResponse KnowledgeGraphSchema\<rparr>"

definition generateKnowledgeGraph ::
  "'a sdk_env_scheme \<Rightarrow> Paper list \<Rightarrow> (thrown + json) \<times> request list" where
  "generateKnowledgeGraph E papers =
     (case generate_try E (generateKnowledgeGraph_request papers) of
        (outcome, calls) \<Rightarrow> (try_catch outcome (\<lambda>e. Inl generateKnowledgeGraph_error), calls))"

definition generateSinglePaperAnalysis_error :: thrown where
  "generateSinglePaperAnalysis_error =
     Error ''Error'' ''Failed to generate the paper analysis due to an AI processing error.''"

definition generateSinglePaperAnalysis_request :: "Paper \<Rightarrow> request" where
  "generateSinglePaperAnalysis_request paper =
     \<lparr>model = ''gemini-2.5-pro'', contents = SinglePaperAnalysisPrompt paper,
      config = JsonResponse SinglePaperAnalysisSchema\<rparr>"

definition generateSinglePaperAnalysis ::
  "'a sdk_env_scheme \<Rightarrow> Paper \<Rightarrow> (thrown + json) \<times> request list" where
  "generateSinglePaperAnalysis E paper =
     (case generate_try E (generateSinglePaperAnalysis_request paper) of
        (outcome, calls) \<Rightarrow>
          (try_catch outcome (\<lambda>e. Inl generateSinglePaperAnalysis_error), calls))"


section \<open>The proxy clients: src/unnamed/part\_001 and src/unnamed/part\_000\<close>

text \<open>
  Both files post \<^verbatim>\<open>{prompt, model, ...extraConfig}\<close> to the worker and read its reply.
  \<^verbatim>\<open>response.json()\<close> is \<^verbatim>\<open>JSON.parse\<close> of the body, \<^verbatim>\<open>response.ok\<close> a status from 200 to 299.
\<close>

definition GEMINI_PROXY_URL :: string where
  "GEMINI_PROXY_URL = ''https://ai-research-assistant.dharunnamikaze.workers.dev''"

record proxy_request =
  url :: string
  prompt_field :: prompt
  model_field :: string
  extraConfig :: "(string \<times> json) list"

record http_response =
  status :: nat
  body_text :: string

definition response_ok :: "http_response \<Rightarrow> bool" where
  "response_ok response = (200 \<le> status response \<and> status response \<le> 299)"

record proxy_env = platform +
  fetch :: "proxy_request \<Rightarrow> thrown + http_response"

definition TypeError_not_a_function :: thrown where
  "TypeError_not_a_function = Error ''TypeError'' ''output.trim is not a function''"

subsection \<open>part\_001: the paper search through the proxy\<close>

definition empty_response_001 :: thrown where
  "empty_response_001 = Error ''Error'' ''Empty response from Gemini proxy.''"

text \<open>
  The extraction step of \<open>callGeminiProxy\<close>: \<^verbatim>\<open>data?.output || data?.text || data?.candidates?.[0]?.content?.parts?.[0]?.text || ""\<close>,
  the emptiness test on the trimmed value, and the trimmed value.
\<close>

definition extract_output_001 :: "json \<Rightarrow> thrown + string" where
  "extract_output_001 data =
     (case or_js (or_js (or_js (get_prop (Some data) ''output'') (get_prop (Some data) ''text''))
                   (candidate_text (Some data))) (Some (JStr [])) of
        Some (JStr s) \<Rightarrow> if trim s = [] then Inl empty_response_001 else Inr (trim s)
      | other \<Rightarrow> Inl TypeError_not_a_function)"

definition proxy_request_001 :: "prompt \<Rightarrow> string \<Rightarrow> (string \<times> json) list \<Rightarrow> proxy_request" where
  "proxy_request_001 p m extra =
     \<lparr>url = GEMINI_PROXY_URL, prompt_field = p, model_field = m, extraConfig = extra\<rparr>"

definition callGeminiProxy_001_try ::
  "'a proxy_env_scheme \<Rightarrow> proxy_request \<Rightarrow> thrown + string" where
  "callGeminiProxy_001_try E req =
     (case fetch E req of
        Inl e \<Rightarrow> Inl e
      | Inr response \<Rightarrow>
          if \<not> response_ok response
          then Inl (Error ''Error''
                 (''Proxy request failed ('' @ show_nat (status response) @ ''): '' @
                  body_text response))
          else (case parse_json E (body_text response) of
                  Inl e \<Rightarrow> Inl e
                | Inr data \<Rightarrow> extract_output_001 data))"

definition callGeminiProxy_001_error :: thrown where
  "callGeminiProxy_001_error =
     Error ''Error'' ''Failed to communicate with the Gemini proxy service.''"

definition callGeminiProxy_001 ::
  "'a proxy_env_scheme \<Rightarrow> prompt \<Rightarrow> string \<Rightarrow> (string \<times> json) list
     \<Rightarrow> (thrown + string) \<times> proxy_request list" where
  "callGeminiProxy_001 E p m extra =
     (try_catch (callGeminiProxy_001_try E (proxy_request_001 p m extra))
        (\<lambda>e. Inl callGeminiProxy_001_error),
      [proxy_request_001 p m extra])"

definition getRawPaperData_001_error :: thrown where
  "getRawPaperData_001_error =
     Error ''Error'' ''Stage 1 failed: Could not fetch raw academic paper data.''"

definition getRawPaperData_001 ::
  "'a proxy_env_scheme \<Rightarrow> string \<Rightarrow> (thrown + string) \<times> proxy_request list" where
  "getRawPaperData_001 E query =
     (case callGeminiProxy_001 E (RawPaperDataPrompt query) ''gemini-2.5-pro'' [] of
        (answer, calls) \<Rightarrow>
          (try_catch
             (case answer of
                Inl e \<Rightarrow> Inl e
              | Inr output \<Rightarrow> if output = [] then Inr [] else Inr output)
             (\<lambda>e. Inl getRawPaperData_001_error),
           calls))"

definition invalid_format_001 :: thrown where
  "invalid_format_001 = Error ''Error'' ''Invalid format: Expected a JSON array of papers.''"

definition formatPaperData_001_error :: thrown where
  "formatPaperData_001_error =
     Error ''Error'' ''Stage 2 failed: Could not structure paper data correctly.''"

fun isArray :: "json \<Rightarrow> bool" where
  "isArray (JArr xs) = True"
| "isArray v = False"

definition formatPaperData_001 ::
  "'a proxy_env_scheme \<Rightarrow> string \<Rightarrow> (thrown + json) \<times> proxy_request list" where
  "formatPaperData_001 E rawData =
     (if trim rawData = [] then (Inr (JArr []), [])
      else
        (case callGeminiProxy_001 E (FormatPaperDataPrompt rawData) ''gemini-2.5-flash'' [] of
           (answer, calls) \<Rightarrow>
             (try_catch
                (case answer of
                   Inl e \<Rightarrow> Inl e
                 | Inr output \<Rightarrow>
                     (case parse_json E output of
                        Inl e \<Rightarrow> Inl e
                      | Inr parsed \<Rightarrow>
                          if \<not> isArray parsed then Inl invalid_format_001 else Inr parsed))
                (\<lambda>e. Inl formatPaperData_001_error),
              calls)))"

definition searchPapers_001_error :: thrown where
  "searchPapers_001_error = Error ''Error'' ''Unexpected error in paper search process.''"

definition searchPapers_001_catch :: "thrown \<Rightarrow> thrown + json" where
  "searchPapers_001_catch e = (if instanceof_Error e then Inl e else Inl searchPapers_001_error)"

definition searchPapers_001 ::
  "'a proxy_env_scheme \<Rightarrow> string \<Rightarrow> (thrown + json) \<times> proxy_request list" where
  "searchPapers_001 E query =
     (case getRawPaperData_001 E query of
        (Inl e, calls1) \<Rightarrow> (searchPapers_001_catch e, calls1)
      | (Inr rawData, calls1) \<Rightarrow>
          (case formatPaperData_001 E rawData of
             (Inl e, calls2) \<Rightarrow> (searchPapers_001_catch e, calls1 @ calls2)
           | (Inr papers, calls2) \<Rightarrow> (Inr papers, calls1 @ calls2)))"

subsection \<open>part\_000: the transforms through the proxy\<close>

definition empty_response_000 :: thrown where
  "empty_response_000 = Error ''Error''
     ''The Gemini proxy returned an empty response. Check prompt or Worker logs.''"

text \<open>
  The extraction step of this file's \<open>callGeminiProxy\<close>:
  \<^verbatim>\<open>data?.output || data?.candidates?.[0]?.content?.parts?.[0]?.text || null\<close>, the test
  \<^verbatim>\<open>!output\<close>, and \<^verbatim>\<open>output.trim()\<close>.
\<close>

definition extract_output_000 :: "json \<Rightarrow> thrown + string" where
  "extract_output_000 data =
     (let output = or_js (or_js (get_prop (Some data) ''output'') (candidate_text (Some data)))
                     (Some JNull)
      in if \<not> truthy output then Inl empty_response_000
         else (case output of
                 Some (JStr s) \<Rightarrow> Inr (trim s)
               | other \<Rightarrow> Inl TypeError_not_a_function))"

definition proxy_request_000 :: "prompt \<Rightarrow> string \<Rightarrow> proxy_request" where
  "proxy_request_000 p m =
     \<lparr>url = GEMINI_PROXY_URL, prompt_field = p, model_field = m, extraConfig = []\<rparr>"

definition callGeminiProxy_000_try ::
  "'a proxy_env_scheme \<Rightarrow> proxy_request \<Rightarrow> thrown + string" where
  "callGeminiProxy_000_try E req =
     (case fetch E req of
        Inl e \<Rightarrow> Inl e
      | Inr response \<Rightarrow>
          if \<not> response_ok response
          then Inl (Error ''Error''
                 (''Proxy request failed (Status '' @ show_nat (status response) @ ''): '' @
                  body_text response))
          else (case parse_json E (body_text response) of
                  Inl e \<Rightarrow> Inl e
                | Inr data \<Rightarrow> extract_output_000 data))"

definition callGeminiProxy_000_error :: thrown where
  "callGeminiProxy_000_error =
     Error ''Error'' ''Gemini proxy request failed. Please try again later.''"

definition callGeminiProxy_000 ::
  "'a proxy_env_scheme \<Rightarrow> prompt \<Rightarrow> string \<Rightarrow> (thrown + string) \<times> proxy_request list" where
  "callGeminiProxy_000 E p m =
     (try_catch (callGeminiProxy_000_try E (proxy_request_000 p m))
        (\<lambda>e. Inl callGeminiProxy_000_error),
      [proxy_request_000 p m])"

text \<open>\<^verbatim>\<open>JSON.parse(await callGeminiProxy(prompt, model))\<close>, the body of each transform's \<^verbatim>\<open>try\<close>.\<close>

definition generate_000_try ::
  "'a proxy_env_scheme \<Rightarrow> prompt \<Rightarrow> string \<Rightarrow> (thrown + json) \<times> proxy_request list" where
  "generate_000_try E p m =
     (case callGeminiProxy_000 E p m of
        (Inl e, calls) \<Rightarrow> (Inl e, calls)
      | (Inr output, calls) \<Rightarrow> (parse_json E output, calls))"

definition generateSuggestions_000 ::
  "'a proxy_env_scheme \<Rightarrow> string \<Rightarrow> (thrown + json) \<times> proxy_request list" where
  "generateSuggestions_000 E query =
     (case generate_000_try E (SuggestionsPrompt query) ''gemini-2.5-flash'' of
        (outcome, calls) \<Rightarrow> (try_catch outcome (\<lambda>e. Inr (JArr [])), calls))"

definition generateComparison_000_error :: thrown where
  "generateComparison_000_error =
     Error ''Error'' ''Failed to generate paper comparison analysis.''"

definition generateComparison_000 ::
  "'a proxy_env_scheme \<Rightarrow> Paper list \<Rightarrow> (thrown + json) \<times> proxy_request list" where
  "generateComparison_000 E papers =
     (case generate_000_try E (ComparisonPrompt papers) ''gemini-2.5-pro'' of
        (outcome, calls) \<Rightarrow> (try_catch outcome (\<lambda>e. Inl generateComparison_000_error), calls))"

definition generateKnowledgeGraph_000_error :: thrown where
  "generateKnowledgeGraph_000_error =
     Error ''Error'' ''Failed to generate knowledge graph data.''"

definition generateKnowledgeGraph_000 ::
  "'a proxy_env_scheme \<Rightarrow> Paper list \<Rightarrow> (thrown + json) \<times> proxy_request list" where
  "generateKnowledgeGraph_000 E papers =
     (case generate_000_try E (KnowledgeGraphPrompt papers) ''gemini-2.5-flash'' of
        (outcome, calls) \<Rightarrow>
          (try_catch outcome (\<lambda>e. Inl generateKnowledgeGraph_000_error), calls))"

definition generateSinglePaperAnalysis_000_error :: thrown where
  "generateSinglePaperAnalysis_000_error =
     Error ''Error'' ''Failed to generate structured single paper analysis.''"

definition generateSinglePaperAnalysis_000 ::
  "'a proxy_env_scheme \<Rightarrow> Paper \<Rightarrow> (thrown + json) \<times> proxy_request list" where
  "generateSinglePaperAnalysis_000 E paper =
     (case generate_000_try E (SinglePaperAnalysisPrompt paper) ''gemini-2.5-pro'' of
        (outcome, calls) \<Rightarrow>
          (try_catch outcome (\<lambda>e. Inl generateSinglePaperAnalysis_000_error), calls))"


section \<open>The relay: src/gemini-proxy/index.js\<close>

text \<open>
  The worker reads the request body as JSON, checks its key, forwards the prompt to the
  backend and answers with \<^verbatim>\<open>JSON.stringify({ text })\<close>. A reply is its status and the value
  that its body denotes to the client that parses it.
\<close>

record relay_request =
  request_body :: string

record upstream_request =
  upstream_model :: "json option"
  upstream_key :: string
  upstream_prompt :: "json option"
  upstream_config :: "json option"

record relay_reply =
  reply_status :: nat
  reply_value :: json

record relay_env = platform +
  GEMINI_API_KEY :: "string option"
  upstream_fetch :: "upstream_request \<Rightarrow> thrown + http_response"

definition relay_missing_key :: thrown where
  "relay_missing_key = Error ''Error'' ''Missing GEMINI_API_KEY in environment''"

definition TypeError_destructure :: thrown where
  "TypeError_destructure = Error ''TypeError'' ''Cannot destructure property of null''"

definition relay_text :: "json \<Rightarrow> json option" where
  "relay_text result = or_js (candidate_text (Some result)) (Some (JStr ''No response''))"

definition text_object :: "json option \<Rightarrow> json" where
  "text_object t = (case t of None \<Rightarrow> JObj [] | Some v \<Rightarrow> JObj [(''text'', v)])"

definition relay_fetch_try :: "'a relay_env_scheme \<Rightarrow> relay_request \<Rightarrow> thrown + relay_reply" where
  "relay_fetch_try E request =
     (case parse_json E (request_body request) of
        Inl e \<Rightarrow> Inl e
      | Inr body \<Rightarrow>
          if body = JNull then Inl TypeError_destructure
          else
            (case GEMINI_API_KEY E of
               None \<Rightarrow> Inl relay_missing_key
             | Some k \<Rightarrow>
                 if k = [] then Inl relay_missing_key
                 else
                   (case upstream_fetch E
                           \<lparr>upstream_model = get_prop (Some body) ''model'', upstream_key = k,
                            upstream_prompt = get_prop (Some body) ''prompt'',
                            upstream_config = get_prop (Some body) ''config''\<rparr> of
                      Inl e \<Rightarrow> Inl e
                    | Inr response \<Rightarrow>
                        (case parse_json E (body_text response) of
                           Inl e \<Rightarrow> Inl e
                         | Inr result \<Rightarrow>
                             Inr \<lparr>reply_status = 200,
                                  reply_value = serialised (text_object (relay_text result))\<rparr>))))"

definition TypeError_message :: thrown where
  "TypeError_message = Error ''TypeError'' ''Cannot read properties of null (reading message)''"

definition relay_catch :: "thrown \<Rightarrow> thrown + relay_reply" where
  "relay_catch err =
     (case err of
        Error n m \<Rightarrow>
          Inr \<lparr>reply_status = 500, reply_value = serialised (JObj [(''error'', JStr m)])\<rparr>
      | NonError v \<Rightarrow>
          if v = JNull then Inl TypeError_message
          else Inr \<lparr>reply_status = 500,
                    reply_value = serialised (case get_prop (Some v) ''message'' of
                                                None \<Rightarrow> JObj []
                                              | Some m \<Rightarrow> JObj [(''error'', m)])\<rparr>)"

definition relay_fetch :: "'a relay_env_scheme \<Rightarrow> relay_request \<Rightarrow> thrown + relay_reply" where
  "relay_fetch E request = try_catch (relay_fetch_try E request) relay_catch"


section \<open>The invariants the specification states for a paper record\<close>

text \<open>
  From the specification's words, not from the code: the authors are a non-empty sequence,
  the year is a four-digit integer, the citation count is a non-negative integer.
\<close>

definition is_integer :: "rat \<Rightarrow> bool" where
  "is_integer r = (of_int \<lfloor>r\<rfloor> = r)"

definition PaperRecord_invariants :: "json \<Rightarrow> bool" where
  "PaperRecord_invariants p =
     ((case get_prop (Some p) ''authors'' of Some (JArr (a # rest)) \<Rightarrow> True | other \<Rightarrow> False)
      \<and> (case get_prop (Some p) ''year'' of
            Some (JNum y) \<Rightarrow> is_integer y \<and> 1000 \<le> y \<and> y \<le> 9999
          | other \<Rightarrow> False)
      \<and> (case get_prop (Some p) ''citationCount'' of
            Some (JNum c) \<Rightarrow> is_integer c \<and> 0 \<le> c
          | other \<Rightarrow> False))"


section \<open>Failure of a single-shot transform\<close>

text \<open>
  From the specification's words: a transform fails when the client cannot be acquired, the
  backend call is rejected (transport), the response has no text (empty output), or the
  trimmed text is not JSON (parse). For the proxy client of part\_000: the request is
  rejected or answered with a status outside 200 to 299, the body is not JSON, the
  extraction step finds no text, or the extracted text is not JSON.
\<close>

definition direct_failure :: "'a sdk_env_scheme \<Rightarrow> request \<Rightarrow> bool" where
  "direct_failure E req =
     (case getClient E of
        Inl e \<Rightarrow> True
      | Inr ai \<Rightarrow>
          (case generateContent E ai req of
             Inl e \<Rightarrow> True
           | Inr response \<Rightarrow>
               (case response_text response of
                  None \<Rightarrow> True
                | Some t \<Rightarrow> JSON_parse E (trim t) = None)))"

definition proxy_000_failure :: "'a proxy_env_scheme \<Rightarrow> proxy_request \<Rightarrow> bool" where
  "proxy_000_failure E req =
     (case fetch E req of
        Inl e \<Rightarrow> True
      | Inr response \<Rightarrow>
          if response_ok response
          then (case JSON_parse E (body_text response) of
                  None \<Rightarrow> True
                | Some data \<Rightarrow>
                    (case extract_output_000 data of
                       Inl e \<Rightarrow> True
                     | Inr output \<Rightarrow> JSON_parse E output = None))
          else True)"


section \<open>Failure inside a stage of the search pipeline\<close>

text \<open>
  From the specification's words, over the environment: stage 2 of the direct client fails
  when its backend call is rejected, the response has no text, or the trimmed text is not
  JSON. A call through the proxy fails when the request is rejected or answered with a
  status outside 200 to 299, the body is not JSON, or the extraction step throws. Stage 2 of
  the proxy client fails when its proxy call fails, or the extracted text is not JSON or not
  an array.
\<close>

definition stage2_failure :: "'a sdk_env_scheme \<Rightarrow> GoogleGenAI \<Rightarrow> string \<Rightarrow> bool" where
  "stage2_failure E ai rawData =
     (case generateContent E ai (formatPaperData_request rawData) of
        Inl e \<Rightarrow> True
      | Inr response \<Rightarrow>
          (case response_text response of
             None \<Rightarrow> True
           | Some t \<Rightarrow> JSON_parse E (trim t) = None))"

definition proxy_call_failure_001 :: "'a proxy_env_scheme \<Rightarrow> proxy_request \<Rightarrow> bool" where
  "proxy_call_failure_001 E req =
     (case fetch E req of
        Inl e \<Rightarrow> True
      | Inr response \<Rightarrow>
          if response_ok response
          then (case JSON_parse E (body_text response) of
                  None \<Rightarrow> True
                | Some data \<Rightarrow> (case extract_output_001 data of Inl e \<Rightarrow> True | Inr out \<Rightarrow> False))
          else True)"

definition stage2_failure_001 :: "'a proxy_env_scheme \<Rightarrow> string \<Rightarrow> bool" where
  "stage2_failure_001 E rawData =
     (case fetch E (proxy_request_001 (FormatPaperDataPrompt rawData) ''gemini-2.5-flash'' []) of
        Inl e \<Rightarrow> True
      | Inr response \<Rightarrow>
          if response_ok response
          then (case JSON_parse E (body_text response) of
                  None \<Rightarrow> True
                | Some data \<Rightarrow>
                    (case extract_output_001 data of
                       Inl e \<Rightarrow> True
                     | Inr out \<Rightarrow>
                         (case JSON_parse E out of
                            None \<Rightarrow> True
                          | Some parsed \<Rightarrow> if isArray parsed then False else True)))
          else True)"


section \<open>Example environments\<close>

text \<open>
  Canned backends for the closed statements below. The \<open>JSON_parse\<close> of an environment is
  the platform's function on the texts that environment produces: each text is mapped to
  the value \<^verbatim>\<open>JSON.parse\<close> gives for it, every other text is never parsed there.
\<close>

definition env_no_results :: sdk_env where
  "env_no_results =
     \<lparr>JSON_parse = (\<lambda>s. None),
      process_env = Some [''API_KEY'' \<mapsto> ''k''],
      generateContent = (\<lambda>ai req. Inr \<lparr>promptFeedback = None, response_text = Some '' ''\<rparr>)\<rparr>"

definition env_blocked :: sdk_env where
  "env_blocked =
     \<lparr>JSON_parse = (\<lambda>s. None),
      process_env = Some [''API_KEY'' \<mapsto> ''k''],
      generateContent = (\<lambda>ai req. Inr
        \<lparr>promptFeedback = Some
           \<lparr>blockReason = Some ''SAFETY'',
            safetyRatings = Some
              [\<lparr>category = ''HARM_CATEGORY_HARASSMENT'', blocked = False\<rparr>,
               \<lparr>category = ''HARM_CATEGORY_DANGEROUS_CONTENT'', blocked = True\<rparr>]\<rparr>,
         response_text = None\<rparr>)\<rparr>"

definition env_object_output :: sdk_env where
  "env_object_output =
     \<lparr>JSON_parse = (\<lambda>s. if s = ''{}'' then Some (JObj []) else None),
      process_env = Some [''API_KEY'' \<mapsto> ''k''],
      generateContent = (\<lambda>ai req.
        if model req = ''gemini-2.5-pro''
        then Inr \<lparr>promptFeedback = None,
                  response_text = Some ''Title: Attention Is All You Need''\<rparr>
        else Inr \<lparr>promptFeedback = None, response_text = Some ''{}''\<rparr>)\<rparr>"

definition env_object_output_001 :: proxy_env where
  "env_object_output_001 =
     \<lparr>JSON_parse = (\<lambda>s.
        if s = ''{\"text\":\"Title: Attention Is All You Need\"}''
        then Some (JObj [(''text'', JStr ''Title: Attention Is All You Need'')])
        else if s = ''{\"text\":\"{}\"}'' then Some (JObj [(''text'', JStr ''{}'')])
        else if s = ''{}'' then Some (JObj [])
        else None),
      fetch = (\<lambda>req.
        if model_field req = ''gemini-2.5-pro''
        then Inr \<lparr>status = 200, body_text = ''{\"text\":\"Title: Attention Is All You Need\"}''\<rparr>
        else Inr \<lparr>status = 200, body_text = ''{\"text\":\"{}\"}''\<rparr>)\<rparr>"

definition env_text_reply :: proxy_env where
  "env_text_reply =
     \<lparr>JSON_parse = (\<lambda>s. if s = ''{\"text\":\"hello\"}'' then Some (JObj [(''text'', JStr ''hello'')])
                         else None),
      fetch = (\<lambda>req. Inr \<lparr>status = 200, body_text = ''{\"text\":\"hello\"}''\<rparr>)\<rparr>"

definition bad_record :: json where
  "bad_record =
     JObj [(''id'', JStr ''p1''), (''title'', JStr ''T''), (''authors'', JArr []),
           (''year'', JNum 20245), (''abstract'', JStr ''A''), (''citationCount'', JNum (- 3)),
           (''tldr'', JStr ''S'')]"

definition bad_record_text :: string where
  "bad_record_text =
     ''[{\"id\":\"p1\",\"title\":\"T\",\"authors\":[],\"year\":20245,\"abstract\":\"A\",\"citationCount\":-3,\"tldr\":\"S\"}]''"

definition env_bad_record :: sdk_env where
  "env_bad_record =
     \<lparr>JSON_parse = (\<lambda>s. if s = bad_record_text then Some (JArr [bad_record]) else None),
      process_env = Some [''API_KEY'' \<mapsto> ''k''],
      generateContent = (\<lambda>ai req.
        if model req = ''gemini-2.5-pro''
        then Inr \<lparr>promptFeedback = None, response_text = Some ''Title: T''\<rparr>
        else Inr \<lparr>promptFeedback = None, response_text = Some bad_record_text\<rparr>)\<rparr>"

definition env_empty_object_001 :: proxy_env where
  "env_empty_object_001 =
     \<lparr>JSON_parse = (\<lambda>s.
        if s = ''{\"text\":\"Title: T\"}'' then Some (JObj [(''text'', JStr ''Title: T'')])
        else if s = ''{\"text\":\"[{}]\"}'' then Some (JObj [(''text'', JStr ''[{}]'')])
        else if s = ''[{}]'' then Some (JArr [JObj []])
        else None),
      fetch = (\<lambda>req.
        if model_field req = ''gemini-2.5-pro''
        then Inr \<lparr>status = 200, body_text = ''{\"text\":\"Title: T\"}''\<rparr>
        else Inr \<lparr>status = 200, body_text = ''{\"text\":\"[{}]\"}''\<rparr>)\<rparr>"

definition env_backend_down :: sdk_env where
  "env_backend_down =
     \<lparr>JSON_parse = (\<lambda>s. None),
      process_env = Some [''GEMINI_API_KEY'' \<mapsto> ''k'', ''API_KEY'' \<mapsto> ''k''],
      generateContent = (\<lambda>ai req. Inl (Error ''TypeError'' ''fetch failed''))\<rparr>"

definition env_proxy_500 :: proxy_env where
  "env_proxy_500 =
     \<lparr>JSON_parse = (\<lambda>s. None),
      fetch = (\<lambda>req. Inr \<lparr>status = 500,
                 body_text = ''{\"error\":\"Missing GEMINI_API_KEY in environment\"}''\<rparr>)\<rparr>"

definition comparison_value :: json where
  "comparison_value =
     JObj [(''summary'', JStr ''S''),
           (''comparison'', JObj [(''methodology'', JStr ''M''), (''keyFindings'', JStr ''K''),
              (''contributions'', JStr ''C''), (''contradictions'', JStr ''X''),
              (''researchGaps'', JStr ''G'')])]"

definition comparison_text :: string where
  "comparison_text =
     ''{\"summary\":\"S\",\"comparison\":{\"methodology\":\"M\",\"keyFindings\":\"K\",\"contributions\":\"C\",\"contradictions\":\"X\",\"researchGaps\":\"G\"}}''"

definition env_comparison :: sdk_env where
  "env_comparison =
     \<lparr>JSON_parse = (\<lambda>s. if s = comparison_text then Some comparison_value else None),
      process_env = Some [''GEMINI_API_KEY'' \<mapsto> ''k''],
      generateContent = (\<lambda>ai req. Inr \<lparr>promptFeedback = None,
                                         response_text = Some comparison_text\<rparr>)\<rparr>"

definition env_no_key :: sdk_env where
  "env_no_key =
     \<lparr>JSON_parse = (\<lambda>s. None),
      process_env = Some Map.empty,
      generateContent = (\<lambda>ai req. Inr \<lparr>promptFeedback = None, response_text = Some ''[]''\<rparr>)\<rparr>"

definition env_stage2_down :: sdk_env where
  "env_stage2_down =
     \<lparr>JSON_parse = (\<lambda>s. None),
      process_env = Some [''API_KEY'' \<mapsto> ''k''],
      generateContent = (\<lambda>ai req.
        if model req = ''gemini-2.5-pro''
        then Inr \<lparr>promptFeedback = None, response_text = Some ''Title: T''\<rparr>
        else Inl (Error ''TypeError'' ''fetch failed''))\<rparr>"

definition env_throws_string :: sdk_env where
  "env_throws_string =
     \<lparr>JSON_parse = (\<lambda>s. None),
      process_env = Some [''API_KEY'' \<mapsto> ''k''],
      generateContent = (\<lambda>ai req. Inl (NonError (JStr ''quota exceeded'')))\<rparr>"

definition relay_request_body :: string where
  "relay_request_body = ''{\"prompt\":\"p\",\"model\":\"gemini-2.5-pro\"}''"

definition relay_request_value :: json where
  "relay_request_value = JObj [(''prompt'', JStr ''p''), (''model'', JStr ''gemini-2.5-pro'')]"

definition blank_candidate_body :: string where
  "blank_candidate_body = ''{\"candidates\":[{\"content\":{\"parts\":[{\"text\":\" \"}]}}]}''"

definition blank_candidate_value :: json where
  "blank_candidate_value =
     JObj [(''candidates'',
            JArr [JObj [(''content'', JObj [(''parts'', JArr [JObj [(''text'', JStr '' '')]])])]])]"

definition blocked_body :: string where
  "blocked_body = ''{\"promptFeedback\":{\"blockReason\":\"SAFETY\"}}''"

definition blocked_value :: json where
  "blocked_value = JObj [(''promptFeedback'', JObj [(''blockReason'', JStr ''SAFETY'')])]"

definition env_relay_blank :: relay_env where
  "env_relay_blank =
     \<lparr>JSON_parse = (\<lambda>s. if s = relay_request_body then Some relay_request_value
                         else if s = blank_candidate_body then Some blank_candidate_value
                         else None),
      GEMINI_API_KEY = Some ''k'',
      upstream_fetch = (\<lambda>req. Inr \<lparr>status = 200, body_text = blank_candidate_body\<rparr>)\<rparr>"

definition env_relay_blocked :: relay_env where
  "env_relay_blocked =
     \<lparr>JSON_parse = (\<lambda>s. if s = relay_request_body then Some relay_request_value
                         else if s = blocked_body then Some blocked_value
                         else None),
      GEMINI_API_KEY = Some ''k'',
      upstream_fetch = (\<lambda>req. Inr \<lparr>status = 200, body_text = blocked_body\<rparr>)\<rparr>"

definition env_proxy_blank :: proxy_env where
  "env_proxy_blank =
     \<lparr>JSON_parse = (\<lambda>s. if s = ''{\"text\":\" \"}'' then Some (JObj [(''text'', JStr '' '')])
                         else None),
      fetch = (\<lambda>req. Inr \<lparr>status = 200, body_text = ''{\"text\":\" \"}''\<rparr>)\<rparr>"

definition infinite_candidate_body :: string where
  "infinite_candidate_body = ''{\"candidates\":[{\"content\":{\"parts\":[{\"text\":1e400}]}}]}''"

definition infinite_candidate_value :: json where
  "infinite_candidate_value =
     JObj [(''candidates'',
            JArr [JObj [(''content'', JObj [(''parts'', JArr [JObj [(''text'', JInfinity True)]])])]])]"

definition env_relay_infinite :: relay_env where
  "env_relay_infinite =
     \<lparr>JSON_parse = (\<lambda>s. if s = relay_request_body then Some relay_request_value
                         else if s = infinite_candidate_body then Some infinite_candidate_value
                         else None),
      GEMINI_API_KEY = Some ''k'',
      upstream_fetch = (\<lambda>req. Inr \<lparr>status = 200, body_text = infinite_candidate_body\<rparr>)\<rparr>"

definition env_no_process :: sdk_env where
  "env_no_process =
     \<lparr>JSON_parse = (\<lambda>s. if s = ''[]'' then Some (JArr []) else None),
      process_env = None,
      generateContent = (\<lambda>ai req. Inr \<lparr>promptFeedback = None, response_text = Some ''[]''\<rparr>)\<rparr>"



section \<open>Auxiliary facts\<close>

lemma trim_Nil: "trim [] = []"
  by (simp add: trim_def)

lemma join_eq_Nil: "join sep xs = [] \<Longrightarrow> x \<in> set xs \<Longrightarrow> x = []"
  by (induction sep xs rule: join.induct) auto

lemma last_dropWhile: "dropWhile P xs \<noteq> [] \<Longrightarrow> last (dropWhile P xs) = last xs"
  by (metis dropWhile_last dropWhile_eq_Nil_conv)

lemma trim_trim: "trim (trim s) = trim s"
proof -
  define u where "u = dropWhile is_space s"
  define w where "w = dropWhile is_space (rev u)"
  have trim_s: "trim s = rev w"
    by (simp add: trim_def u_def w_def)
  have keep: "dropWhile is_space (rev w) = rev w"
  proof (cases "w = []")
    case True
    then show ?thesis by simp
  next
    case False
    then have "u \<noteq> []"
      by (auto simp: w_def)
    then have "\<not> is_space (hd u)"
      unfolding u_def by (simp add: hd_dropWhile)
    moreover have "last w = hd u"
      using False \<open>u \<noteq> []\<close> by (simp add: w_def last_dropWhile last_rev)
    ultimately have "\<not> is_space (hd (rev w))"
      using False by (simp add: hd_rev)
    with False show ?thesis
      by (cases "rev w") auto
  qed
  have "trim (rev w) = rev (dropWhile is_space w)"
    by (simp add: trim_def keep)
  also have "\<dots> = rev w"
    by (simp add: w_def)
  finally show ?thesis
    by (simp add: trim_s)
qed

lemmas direct_search_defs =
  searchPapers_def getAi_def getRawPaperData_def getRawPaperData_try_def
  getRawPaperData_text_def getRawPaperData_request_def formatPaperData_def
  formatPaperData_request_def parse_response_text_def parse_json_def try_catch_def
  searchPapers_catch_def trim_def is_space_def

lemmas proxy_search_defs =
  searchPapers_001_def getRawPaperData_001_def formatPaperData_001_def
  callGeminiProxy_001_def callGeminiProxy_001_try_def proxy_request_001_def
  extract_output_001_def or_js_def candidate_text_def response_ok_def parse_json_def
  try_catch_def searchPapers_001_catch_def trim_def is_space_def

lemmas proxy_000_defs =
  callGeminiProxy_000_def callGeminiProxy_000_try_def proxy_request_000_def
  extract_output_000_def or_js_def candidate_text_def response_ok_def parse_json_def
  try_catch_def trim_def is_space_def

text \<open>What a resolved or rejected stage tells about the steps before it.\<close>

lemma formatPaperData_Inr:
  assumes "fst (formatPaperData E ai raw) = Inr v"
  shows "(trim raw = [] \<and> v = JArr []) \<or>
         (trim raw \<noteq> [] \<and> (\<exists>response t.
            generateContent E ai (formatPaperData_request raw) = Inr response \<and>
            response_text response = Some t \<and> JSON_parse E (trim t) = Some v))"
  using assms
  by (auto simp: formatPaperData_def try_catch_def parse_response_text_def parse_json_def
      split: if_splits sum.splits option.splits)

lemma formatPaperData_Inl:
  "fst (formatPaperData E ai raw) = Inl e \<Longrightarrow> e = formatPaperData_error"
  by (auto simp: formatPaperData_def try_catch_def split: if_splits sum.splits)

lemma searchPapers_Inr:
  assumes "fst (searchPapers E query) = Inr v"
  shows "\<exists>ai raw. getAi E = Inr ai \<and> fst (getRawPaperData E ai query) = Inr raw \<and>
           fst (formatPaperData E ai raw) = Inr v"
  using assms
  by (auto simp: searchPapers_def searchPapers_catch_def
      split: sum.splits prod.splits if_splits)

lemma extract_output_001_Inr:
  "extract_output_001 data = Inr out \<Longrightarrow> out \<noteq> [] \<and> trim out = out"
  by (auto simp: extract_output_001_def trim_trim
      split: option.splits json.splits if_splits)

lemma callGeminiProxy_001_Inr:
  "fst (callGeminiProxy_001 E p m extra) = Inr out \<Longrightarrow> out \<noteq> [] \<and> trim out = out"
  by (auto simp: callGeminiProxy_001_def callGeminiProxy_001_try_def try_catch_def
      split: sum.splits if_splits dest: extract_output_001_Inr)

lemma callGeminiProxy_001_Inl:
  "fst (callGeminiProxy_001 E p m extra) = Inl e \<Longrightarrow> e = callGeminiProxy_001_error"
  by (auto simp: callGeminiProxy_001_def try_catch_def split: sum.splits)

lemma getRawPaperData_001_Inr:
  assumes "fst (getRawPaperData_001 E query) = Inr raw"
  shows "raw \<noteq> [] \<and> trim raw = raw \<and>
         fst (callGeminiProxy_001 E (RawPaperDataPrompt query) ''gemini-2.5-pro'' []) = Inr raw"
proof -
  obtain answer calls where call:
    "callGeminiProxy_001 E (RawPaperDataPrompt query) ''gemini-2.5-pro'' [] = (answer, calls)"
    by (cases "callGeminiProxy_001 E (RawPaperDataPrompt query) ''gemini-2.5-pro'' []")
  with assms obtain out where out: "answer = Inr out"
    by (cases answer) (auto simp: getRawPaperData_001_def try_catch_def)
  with call have "out \<noteq> [] \<and> trim out = out"
    using callGeminiProxy_001_Inr [of E "RawPaperDataPrompt query" "''gemini-2.5-pro''" "[]" out]
    by simp
  moreover from assms call out have "raw = out"
    by (auto simp: getRawPaperData_001_def try_catch_def split: if_splits)
  ultimately show ?thesis
    using call out by simp
qed

lemma getRawPaperData_001_Inl:
  "fst (getRawPaperData_001 E query) = Inl e \<Longrightarrow> e = getRawPaperData_001_error"
  by (auto simp: getRawPaperData_001_def try_catch_def split: prod.splits sum.splits if_splits)

lemma formatPaperData_001_Inr:
  assumes "fst (formatPaperData_001 E raw) = Inr v" and "trim raw \<noteq> []"
  shows "isArray v \<and> (\<exists>output.
           fst (callGeminiProxy_001 E (FormatPaperDataPrompt raw) ''gemini-2.5-flash'' []) = Inr output \<and>
           JSON_parse E output = Some v)"
  using assms
  by (auto simp: formatPaperData_001_def try_catch_def parse_json_def
      split: prod.splits sum.splits option.splits if_splits)

lemma formatPaperData_001_Inl:
  "fst (formatPaperData_001 E raw) = Inl e \<Longrightarrow> e = formatPaperData_001_error"
  by (auto simp: formatPaperData_001_def try_catch_def
      split: prod.splits sum.splits option.splits if_splits)

lemma searchPapers_001_Inr:
  assumes "fst (searchPapers_001 E query) = Inr v"
  shows "\<exists>raw. fst (getRawPaperData_001 E query) = Inr raw \<and>
           fst (formatPaperData_001 E raw) = Inr v"
  using assms
  by (auto simp: searchPapers_001_def searchPapers_001_catch_def
      split: sum.splits prod.splits if_splits)

lemma searchPapers_env_bad_record:
  "searchPapers env_bad_record ''q'' =
     (Inr (JArr [bad_record]), [getRawPaperData_request ''q'', formatPaperData_request ''Title: T''])"
  by (simp add: direct_search_defs env_bad_record_def bad_record_text_def)

lemma searchPapers_001_env_empty_object:
  "searchPapers_001 env_empty_object_001 ''q'' =
     (Inr (JArr [JObj []]),
      [proxy_request_001 (RawPaperDataPrompt ''q'') ''gemini-2.5-pro'' [],
       proxy_request_001 (FormatPaperDataPrompt ''Title: T'') ''gemini-2.5-flash'' []])"
  by (simp add: proxy_search_defs env_empty_object_001_def)

lemma generate_try_failure:
  "direct_failure E req \<longleftrightarrow> (\<exists>e. fst (generate_try E req) = Inl e)"
  by (auto simp: direct_failure_def generate_try_def parse_response_text_def parse_json_def
      split: sum.splits option.splits)

lemma generate_try_success:
  "fst (generate_try E req) = Inr v \<longleftrightarrow>
     (\<exists>ai response t. getClient E = Inr ai \<and> generateContent E ai req = Inr response \<and>
        response_text response = Some t \<and> JSON_parse E (trim t) = Some v)"
  by (auto simp: generate_try_def parse_response_text_def parse_json_def
      split: sum.splits option.splits)

lemma generate_000_try_failure:
  "proxy_000_failure E (proxy_request_000 p m) \<longleftrightarrow> (\<exists>e. fst (generate_000_try E p m) = Inl e)"
  by (auto simp: proxy_000_failure_def generate_000_try_def callGeminiProxy_000_def
      callGeminiProxy_000_try_def try_catch_def parse_json_def
      split: sum.splits option.splits if_splits)

lemma fatal_transform:
  assumes "transform = (case generate_try E req of
             (outcome, calls) \<Rightarrow> (try_catch outcome (\<lambda>e. Inl fatal), calls))"
  shows "(direct_failure E req \<longrightarrow> fst transform = Inl fatal)
       \<and> (fst transform = Inr v \<longrightarrow>
            (\<exists>ai response t. getClient E = Inr ai \<and> generateContent E ai req = Inr response \<and>
               response_text response = Some t \<and> JSON_parse E (trim t) = Some v))"
proof -
  obtain outcome calls where run: "generate_try E req = (outcome, calls)"
    by (cases "generate_try E req")
  have "fst transform = Inl fatal" if "direct_failure E req"
    using that run assms by (auto simp: generate_try_failure try_catch_def)
  moreover have "fst (generate_try E req) = Inr v" if "fst transform = Inr v"
    using that run assms by (cases outcome) (auto simp: try_catch_def)
  ultimately show ?thesis
    by (simp add: generate_try_success)
qed

lemma getRawPaperData_rethrows:
  "generateContent E ai (getRawPaperData_request query) = Inl e
     \<Longrightarrow> fst (getRawPaperData E ai query) = Inl e"
  by (simp add: getRawPaperData_def getRawPaperData_try_def try_catch_def)

lemma searchPapers_stage1_rejects:
  "getAi E = Inr ai \<Longrightarrow> fst (getRawPaperData E ai query) = Inl e
     \<Longrightarrow> fst (searchPapers E query) = (if instanceof_Error e then Inl e else Inl searchPapers_error)"
  by (cases "getRawPaperData E ai query")
     (simp add: searchPapers_def searchPapers_catch_def)

lemma searchPapers_stage2_rejects:
  "getAi E = Inr ai \<Longrightarrow> fst (getRawPaperData E ai query) = Inr raw
     \<Longrightarrow> fst (formatPaperData E ai raw) = Inl e
     \<Longrightarrow> fst (searchPapers E query) = (if instanceof_Error e then Inl e else Inl searchPapers_error)"
  by (cases "getRawPaperData E ai query"; cases "formatPaperData E ai raw")
     (simp add: searchPapers_def searchPapers_catch_def)

lemma searchPapers_001_stage1_rejects:
  "fst (getRawPaperData_001 E query) = Inl e
     \<Longrightarrow> fst (searchPapers_001 E query) =
           (if instanceof_Error e then Inl e else Inl searchPapers_001_error)"
  by (cases "getRawPaperData_001 E query")
     (simp add: searchPapers_001_def searchPapers_001_catch_def)

lemma searchPapers_001_stage2_rejects:
  "fst (getRawPaperData_001 E query) = Inr raw \<Longrightarrow> fst (formatPaperData_001 E raw) = Inl e
     \<Longrightarrow> fst (searchPapers_001 E query) =
           (if instanceof_Error e then Inl e else Inl searchPapers_001_error)"
  by (cases "getRawPaperData_001 E query"; cases "formatPaperData_001 E raw")
     (simp add: searchPapers_001_def searchPapers_001_catch_def)

lemmas relay_defs =
  relay_fetch_def relay_fetch_try_def relay_catch_def relay_text_def text_object_def
  parse_json_def try_catch_def or_js_def candidate_text_def

lemma relay_text_truthy: "\<exists>t. relay_text result = Some t \<and> truthy (Some t)"
  by (cases "candidate_text (Some result)") (auto simp: relay_text_def or_js_def)

lemma relay_text_falsy:
  "\<not> truthy (candidate_text (Some result)) \<Longrightarrow> relay_text result = Some (JStr ''No response'')"
  by (simp add: relay_text_def or_js_def)

lemma extract_output_001_text_only:
  assumes "truthy (Some t)"
  shows "extract_output_001 (JObj [(''text'', t)]) =
           (case t of
              JStr s \<Rightarrow> if trim s = [] then Inl empty_response_001 else Inr (trim s)
            | other \<Rightarrow> Inl TypeError_not_a_function)"
  using assms
  by (cases t) (simp_all add: extract_output_001_def or_js_def candidate_text_def)

lemma empty_response_001_not_TypeError: "empty_response_001 \<noteq> TypeError_not_a_function"
  by (simp add: empty_response_001_def TypeError_not_a_function_def)

lemma getRawPaperData_Inr_iff:
  "fst (getRawPaperData E ai query) = Inr raw \<longleftrightarrow>
     (\<exists>response.
        generateContent E ai (getRawPaperData_request query) = Inr response \<and>
        \<not> (\<exists>pf reason. promptFeedback response = Some pf \<and> blockReason pf = Some reason \<and>
               reason \<noteq> []) \<and>
        raw = (case response_text response of None \<Rightarrow> [] | Some t \<Rightarrow> trim t))"
  by (auto simp: getRawPaperData_def getRawPaperData_try_def getRawPaperData_text_def
      try_catch_def split: sum.splits option.splits if_splits)

lemma getRawPaperData_Inl_iff:
  "fst (getRawPaperData E ai query) = Inl e \<longleftrightarrow>
     generateContent E ai (getRawPaperData_request query) = Inl e \<or>
     (\<exists>response pf reason.
        generateContent E ai (getRawPaperData_request query) = Inr response \<and>
        promptFeedback response = Some pf \<and> blockReason pf = Some reason \<and> reason \<noteq> [] \<and>
        e = safety_error reason (blockedCategories (safetyRatings pf)))"
  by (auto simp: getRawPaperData_def getRawPaperData_try_def getRawPaperData_text_def
      try_catch_def split: sum.splits option.splits if_splits)

lemma getRawPaperData_trimmed:
  "fst (getRawPaperData E ai query) = Inr raw \<Longrightarrow> trim raw = raw"
  by (auto simp: getRawPaperData_Inr_iff trim_trim trim_Nil split: option.splits)

lemma formatPaperData_Inr_iff:
  "fst (formatPaperData E ai raw) = Inr v \<longleftrightarrow>
     (trim raw = [] \<and> v = JArr []) \<or>
     (trim raw \<noteq> [] \<and> (\<exists>response t.
        generateContent E ai (formatPaperData_request raw) = Inr response \<and>
        response_text response = Some t \<and> JSON_parse E (trim t) = Some v))"
  by (auto simp: formatPaperData_def try_catch_def parse_response_text_def parse_json_def
      split: if_splits sum.splits option.splits)

lemma searchPapers_Inr_iff:
  "fst (searchPapers E query) = Inr v \<longleftrightarrow>
     (\<exists>ai raw. getAi E = Inr ai \<and> fst (getRawPaperData E ai query) = Inr raw \<and>
        fst (formatPaperData E ai raw) = Inr v)"
  by (auto simp: searchPapers_def searchPapers_catch_def
      split: sum.splits prod.splits if_splits)

lemma callGeminiProxy_001_Inr_iff:
  "fst (callGeminiProxy_001 E p m extra) = Inr out \<longleftrightarrow>
     (\<exists>response data.
        fetch E (proxy_request_001 p m extra) = Inr response \<and> response_ok response \<and>
        JSON_parse E (body_text response) = Some data \<and> extract_output_001 data = Inr out)"
  by (auto simp: callGeminiProxy_001_def callGeminiProxy_001_try_def try_catch_def parse_json_def
      split: sum.splits option.splits if_splits)

lemma getRawPaperData_001_Inr_iff:
  "fst (getRawPaperData_001 E query) = Inr raw \<longleftrightarrow>
     fst (callGeminiProxy_001 E (RawPaperDataPrompt query) ''gemini-2.5-pro'' []) = Inr raw"
  by (auto simp: getRawPaperData_001_def try_catch_def split: prod.splits sum.splits if_splits
      dest: callGeminiProxy_001_Inr)

lemma formatPaperData_001_Inr_iff:
  "fst (formatPaperData_001 E raw) = Inr v \<longleftrightarrow>
     (trim raw = [] \<and> v = JArr []) \<or>
     (trim raw \<noteq> [] \<and> isArray v \<and> (\<exists>output.
        fst (callGeminiProxy_001 E (FormatPaperDataPrompt raw) ''gemini-2.5-flash'' []) = Inr output \<and>
        JSON_parse E output = Some v))"
  by (auto simp: formatPaperData_001_def try_catch_def parse_json_def
      split: prod.splits sum.splits option.splits if_splits)

lemma searchPapers_001_Inr_iff:
  "fst (searchPapers_001 E query) = Inr v \<longleftrightarrow>
     (\<exists>raw. fst (getRawPaperData_001 E query) = Inr raw \<and>
        fst (formatPaperData_001 E raw) = Inr v)"
  by (auto simp: searchPapers_001_def searchPapers_001_catch_def
      split: sum.splits prod.splits if_splits)

lemma formatPaperData_Inl_iff:
  "fst (formatPaperData E ai raw) = Inl e \<longleftrightarrow>
     trim raw \<noteq> [] \<and> stage2_failure E ai raw \<and> e = formatPaperData_error"
  by (auto simp: formatPaperData_def stage2_failure_def try_catch_def parse_response_text_def
      parse_json_def split: if_splits sum.splits option.splits)

lemma callGeminiProxy_001_Inl_iff:
  "fst (callGeminiProxy_001 E p m extra) = Inl e \<longleftrightarrow>
     proxy_call_failure_001 E (proxy_request_001 p m extra) \<and> e = callGeminiProxy_001_error"
  by (auto simp: callGeminiProxy_001_def callGeminiProxy_001_try_def proxy_call_failure_001_def
      try_catch_def parse_json_def split: if_splits sum.splits option.splits)

lemma getRawPaperData_001_Inl_iff:
  "fst (getRawPaperData_001 E query) = Inl e \<longleftrightarrow>
     proxy_call_failure_001 E (proxy_request_001 (RawPaperDataPrompt query) ''gemini-2.5-pro'' [])
     \<and> e = getRawPaperData_001_error"
proof -
  obtain answer calls where call:
    "callGeminiProxy_001 E (RawPaperDataPrompt query) ''gemini-2.5-pro'' [] = (answer, calls)"
    by (cases "callGeminiProxy_001 E (RawPaperDataPrompt query) ''gemini-2.5-pro'' []")
  have "fst (getRawPaperData_001 E query) = Inl e \<longleftrightarrow>
          (\<exists>e'. answer = Inl e') \<and> e = getRawPaperData_001_error"
    by (cases answer) (auto simp: getRawPaperData_001_def call try_catch_def)
  moreover have "(\<exists>e'. answer = Inl e') \<longleftrightarrow>
      proxy_call_failure_001 E (proxy_request_001 (RawPaperDataPrompt query) ''gemini-2.5-pro'' [])"
    using callGeminiProxy_001_Inl_iff [of E "RawPaperDataPrompt query" "''gemini-2.5-pro''" "[]"] call
    by auto
  ultimately show ?thesis
    by simp
qed

lemma formatPaperData_001_Inl_iff:
  "fst (formatPaperData_001 E raw) = Inl e \<longleftrightarrow>
     trim raw \<noteq> [] \<and> stage2_failure_001 E raw \<and> e = formatPaperData_001_error"
  by (auto simp: formatPaperData_001_def stage2_failure_001_def callGeminiProxy_001_def
      callGeminiProxy_001_try_def try_catch_def parse_json_def
      split: if_splits sum.splits option.splits)

lemma serialised_truthy:
  "truthy (Some t) \<Longrightarrow> truthy (Some (serialised t)) \<or> (\<exists>positive. t = JInfinity positive)"
  by (cases t) simp_all

lemma serialised_text:
  assumes "truthy (Some t)"
  shows "extract_output_001 (JObj [(''text'', serialised t)]) = Inl empty_response_001
           \<longleftrightarrow> (\<exists>s. t = JStr s \<and> trim s = []) \<or> (\<exists>positive. t = JInfinity positive)"
proof (cases t)
  case (JInfinity positive)
  then show ?thesis
    by (simp add: extract_output_001_def or_js_def candidate_text_def trim_Nil)
qed (use assms empty_response_001_not_TypeError in
      \<open>auto simp: extract_output_001_text_only\<close>)


section \<open>The search pipeline\<close>

text \<open>
  C1. When stage 1 is answered without a block reason and its text is undefined or trims
  to the empty string, \<open>getRawPaperData\<close> returns the empty string rather than failing,
  \<open>formatPaperData\<close> on a blank input returns the empty array without sending a request,
  and \<open>searchPapers\<close> returns the empty array having sent the stage 1 request only.
\<close>

theorem searchPapers_empty_retrieval:
  assumes ai: "getAi E = Inr ai"
    and answer: "generateContent E ai (getRawPaperData_request query) = Inr response"
    and unblocked: "\<forall>pf reason. promptFeedback response = Some pf \<and> blockReason pf = Some reason
                      \<longrightarrow> reason = []"
    and empty: "\<forall>t. response_text response = Some t \<longrightarrow> trim t = []"
  shows "getRawPaperData E ai query = (Inr [], [getRawPaperData_request query])
       \<and> (\<forall>blank. trim blank = [] \<longrightarrow> formatPaperData E ai blank = (Inr (JArr []), []))
       \<and> searchPapers E query = (Inr (JArr []), [getRawPaperData_request query])"
proof -
  have text_empty: "getRawPaperData_text response = Inr []"
    using empty by (simp add: getRawPaperData_text_def split: option.splits)
  have "getRawPaperData_try (Inr response) = Inr []"
    using unblocked text_empty
    by (auto simp: getRawPaperData_try_def split: option.splits)
  then have stage1: "getRawPaperData E ai query = (Inr [], [getRawPaperData_request query])"
    by (simp add: getRawPaperData_def answer try_catch_def)
  have stage2: "\<forall>blank. trim blank = [] \<longrightarrow> formatPaperData E ai blank = (Inr (JArr []), [])"
    by (simp add: formatPaperData_def)
  have "searchPapers E query = (Inr (JArr []), [getRawPaperData_request query])"
    using stage2 by (simp add: searchPapers_def ai stage1 trim_Nil)
  with stage1 stage2 show ?thesis by blast
qed

theorem searchPapers_empty_retrieval_witness:
  "getAi env_no_results = Inr \<lparr>apiKey = ''k''\<rparr>
   \<and> generateContent env_no_results \<lparr>apiKey = ''k''\<rparr> (getRawPaperData_request ''graph neural networks'')
       = Inr \<lparr>promptFeedback = None, response_text = Some '' ''\<rparr>
   \<and> trim '' '' = []
   \<and> getRawPaperData env_no_results \<lparr>apiKey = ''k''\<rparr> ''graph neural networks''
       = (Inr [], [getRawPaperData_request ''graph neural networks''])
   \<and> formatPaperData env_no_results \<lparr>apiKey = ''k''\<rparr> [] = (Inr (JArr []), [])
   \<and> searchPapers env_no_results ''graph neural networks''
       = (Inr (JArr []), [getRawPaperData_request ''graph neural networks''])"
proof -
  have ai: "getAi env_no_results = Inr \<lparr>apiKey = ''k''\<rparr>"
    by (simp add: getAi_def env_no_results_def)
  have answer: "generateContent env_no_results \<lparr>apiKey = ''k''\<rparr>
                  (getRawPaperData_request ''graph neural networks'')
                = Inr \<lparr>promptFeedback = None, response_text = Some '' ''\<rparr>"
    by (simp add: env_no_results_def)
  have blank: "trim '' '' = []"
    by (simp add: trim_def is_space_def)
  show ?thesis
    using searchPapers_empty_retrieval [OF ai answer] ai answer blank trim_Nil
    by simp
qed

text \<open>
  C2. When the stage 1 response carries a block reason, \<open>searchPapers\<close> rejects with the
  error whose message holds that reason and the categories of the blocked safety ratings
  (joined by commas, \<^verbatim>\<open>N/A\<close> when there is none); the empty string is not returned in its
  place, and the stage 1 request is the only one sent.
\<close>

theorem searchPapers_safety_block:
  assumes ai: "getAi E = Inr ai"
    and answer: "generateContent E ai (getRawPaperData_request query) = Inr response"
    and feedback: "promptFeedback response = Some pf"
    and reason: "blockReason pf = Some reason" "reason \<noteq> []"
  shows "searchPapers E query =
           (Inl (Error ''Error''
              (''Search failed: The query was blocked for safety reasons.'' @ [CHR 0x0A] @
               ''Reason: '' @ reason @ ''.'' @ [CHR 0x0A] @
               ''Categories: '' @ blockedCategories (safetyRatings pf) @ ''.'')),
            [getRawPaperData_request query])
       \<and> getRawPaperData E ai query =
           (Inl (safety_error reason (blockedCategories (safetyRatings pf))),
            [getRawPaperData_request query])
       \<and> (\<forall>rs. safetyRatings pf = Some rs \<and> (\<exists>r \<in> set rs. blocked r \<and> category r \<noteq> [])
            \<longrightarrow> blockedCategories (safetyRatings pf) = join '', '' (map category (filter blocked rs)))"
proof -
  have "getRawPaperData_try (Inr response) =
          Inl (safety_error reason (blockedCategories (safetyRatings pf)))"
    using feedback reason by (simp add: getRawPaperData_try_def)
  then have stage1: "getRawPaperData E ai query =
      (Inl (safety_error reason (blockedCategories (safetyRatings pf))),
       [getRawPaperData_request query])"
    by (simp add: getRawPaperData_def answer try_catch_def)
  have search: "searchPapers E query =
      (Inl (safety_error reason (blockedCategories (safetyRatings pf))),
       [getRawPaperData_request query])"
    by (simp add: searchPapers_def ai stage1 searchPapers_catch_def safety_error_def)
  have cats: "blockedCategories (Some rs) = join '', '' (map category (filter blocked rs))"
    if "\<exists>r \<in> set rs. blocked r \<and> category r \<noteq> []" for rs
  proof -
    from that obtain r where r: "r \<in> set (filter blocked rs)" "category r \<noteq> []"
      by auto
    then have "category r \<in> set (map category (filter blocked rs))"
      by (simp del: set_filter)
    with r(2) have "join '', '' (map category (filter blocked rs)) \<noteq> []"
      using join_eq_Nil by blast
    then show ?thesis
      by (simp add: blockedCategories_def Let_def)
  qed
  show ?thesis
    using stage1 search cats by (auto simp: safety_error_def)
qed

theorem searchPapers_safety_block_witness:
  "getAi env_blocked = Inr \<lparr>apiKey = ''k''\<rparr>
   \<and> ''SAFETY'' \<noteq> []
   \<and> searchPapers env_blocked ''q'' =
       (Inl (Error ''Error''
          (''Search failed: The query was blocked for safety reasons.'' @ [CHR 0x0A] @
           ''Reason: SAFETY.'' @ [CHR 0x0A] @
           ''Categories: HARM_CATEGORY_DANGEROUS_CONTENT.'')),
        [getRawPaperData_request ''q''])"
proof -
  let ?pf = "\<lparr>blockReason = Some ''SAFETY'',
              safetyRatings = Some
                [\<lparr>category = ''HARM_CATEGORY_HARASSMENT'', blocked = False\<rparr>,
                 \<lparr>category = ''HARM_CATEGORY_DANGEROUS_CONTENT'', blocked = True\<rparr>]\<rparr>"
  have ai: "getAi env_blocked = Inr \<lparr>apiKey = ''k''\<rparr>"
    by (simp add: getAi_def env_blocked_def)
  have answer: "generateContent env_blocked \<lparr>apiKey = ''k''\<rparr> (getRawPaperData_request ''q'')
                = Inr \<lparr>promptFeedback = Some ?pf, response_text = None\<rparr>"
    by (simp add: env_blocked_def)
  have cats: "blockedCategories (safetyRatings ?pf) = ''HARM_CATEGORY_DANGEROUS_CONTENT''"
    by (simp add: blockedCategories_def)
  show ?thesis
    using searchPapers_safety_block [OF ai answer, of ?pf "''SAFETY''"] ai cats
    by simp
qed

text \<open>
  C3. Stage 2 of the direct client returns whatever \<^verbatim>\<open>JSON.parse\<close> yields and does not test
  that it is an array. When the model answers stage 2 with the text \<^verbatim>\<open>{}\<close>, valid JSON
  whose value is an object, \<open>searchPapers\<close> resolves with that object. The proxy client
  tests \<^verbatim>\<open>Array.isArray\<close>: given the same output for stage 2 it rejects with its stage 2
  error.
\<close>

theorem searchPapers_returns_non_array:
  "searchPapers env_object_output ''transformers'' =
     (Inr (JObj []),
      [getRawPaperData_request ''transformers'',
       formatPaperData_request ''Title: Attention Is All You Need''])
   \<and> searchPapers_001 env_object_output_001 ''transformers'' =
     (Inl formatPaperData_001_error,
      [proxy_request_001 (RawPaperDataPrompt ''transformers'') ''gemini-2.5-pro'' [],
       proxy_request_001 (FormatPaperDataPrompt ''Title: Attention Is All You Need'')
         ''gemini-2.5-flash'' []])"
proof -
  have direct: "searchPapers env_object_output ''transformers'' =
     (Inr (JObj []),
      [getRawPaperData_request ''transformers'',
       formatPaperData_request ''Title: Attention Is All You Need''])"
    by (simp add: direct_search_defs env_object_output_def)
  have proxy: "searchPapers_001 env_object_output_001 ''transformers'' =
     (Inl formatPaperData_001_error,
      [proxy_request_001 (RawPaperDataPrompt ''transformers'') ''gemini-2.5-pro'' [],
       proxy_request_001 (FormatPaperDataPrompt ''Title: Attention Is All You Need'')
         ''gemini-2.5-flash'' []])"
    by (simp add: proxy_search_defs env_object_output_001_def formatPaperData_001_error_def)
  from direct proxy show ?thesis by (rule conjI)
qed

text \<open>
  In general: the proxy client rejects every stage 2 output that is not JSON or not an array
  with its stage 2 error, which differs from the errors of stage 1 and of the proxy call;
  the direct client rejects every stage 2 output that is not JSON with its stage 2 error.
\<close>

lemma searchPapers_001_structuring_failure:
  assumes stage1: "fst (getRawPaperData_001 E query) = Inr raw"
    and stage2: "fst (callGeminiProxy_001 E (FormatPaperDataPrompt raw) ''gemini-2.5-flash'' [])
                   = Inr output"
    and malformed: "JSON_parse E output = None
                    \<or> (\<exists>v. JSON_parse E output = Some v \<and> \<not> isArray v)"
  shows "fst (searchPapers_001 E query) = Inl formatPaperData_001_error"
    and "formatPaperData_001_error \<noteq> getRawPaperData_001_error"
    and "formatPaperData_001_error \<noteq> callGeminiProxy_001_error"
proof -
  from getRawPaperData_001_Inr [OF stage1] have "trim raw \<noteq> []"
    by simp
  with stage2 malformed have "fst (formatPaperData_001 E raw) = Inl formatPaperData_001_error"
    by (cases "callGeminiProxy_001 E (FormatPaperDataPrompt raw) ''gemini-2.5-flash'' []")
       (auto simp: formatPaperData_001_def try_catch_def parse_json_def)
  with stage1 show "fst (searchPapers_001 E query) = Inl formatPaperData_001_error"
    using searchPapers_001_stage2_rejects [of E query raw formatPaperData_001_error]
    by (simp add: formatPaperData_001_error_def)
  show "formatPaperData_001_error \<noteq> getRawPaperData_001_error"
    by (simp add: formatPaperData_001_error_def getRawPaperData_001_error_def)
  show "formatPaperData_001_error \<noteq> callGeminiProxy_001_error"
    by (simp add: formatPaperData_001_error_def callGeminiProxy_001_error_def)
qed

lemma searchPapers_unparseable:
  assumes ai: "getAi E = Inr ai"
    and stage1: "fst (getRawPaperData E ai query) = Inr raw" "trim raw \<noteq> []"
    and stage2: "generateContent E ai (formatPaperData_request raw) = Inr response"
                "response_text response = Some t" "JSON_parse E (trim t) = None"
  shows "fst (searchPapers E query) = Inl formatPaperData_error"
proof -
  from stage1(2) stage2 have "fst (formatPaperData E ai raw) = Inl formatPaperData_error"
    by (simp add: formatPaperData_def try_catch_def parse_response_text_def parse_json_def)
  with ai stage1(1) show ?thesis
    using searchPapers_stage2_rejects [of E ai query raw formatPaperData_error]
    by (simp add: formatPaperData_error_def)
qed

text \<open>
  C5, as stated, fails: no client inspects the elements of the array it returns. The direct
  client resolves with a record whose author list is empty, whose year has five digits and
  whose citation count is negative; the proxy client resolves with an array holding an
  empty object.
\<close>

theorem searchPapers_invariants_counterexample:
  "''q'' \<noteq> []
   \<and> fst (searchPapers env_bad_record ''q'') = Inr (JArr [bad_record])
   \<and> \<not> PaperRecord_invariants bad_record
   \<and> fst (searchPapers_001 env_empty_object_001 ''q'') = Inr (JArr [JObj []])
   \<and> \<not> PaperRecord_invariants (JObj [])"
  by (simp add: searchPapers_env_bad_record searchPapers_001_env_empty_object
      PaperRecord_invariants_def bad_record_def)

text \<open>
  C5, amended. \<open>searchPapers\<close> resolves with a value exactly in these cases. Direct client:
  the key is set and stage 1 is answered without a block reason; then the value is the empty
  array when the stage 1 text is undefined or blank, and otherwise it is the value
  \<^verbatim>\<open>JSON.parse\<close> gives for the trimmed text of the stage 2 response, whatever that value is.
  Proxy client: both proxy calls succeed, and the value is the value \<^verbatim>\<open>JSON.parse\<close> gives
  for the stage 2 output, which is an array. Nothing more is known of the elements than what
  the model put there.
\<close>

theorem searchPapers_returns_parsed_value:
  "(fst (searchPapers E query) = Inr v \<longleftrightarrow>
      (\<exists>ai response.
         getAi E = Inr ai \<and>
         generateContent E ai (getRawPaperData_request query) = Inr response \<and>
         \<not> (\<exists>pf reason. promptFeedback response = Some pf \<and> blockReason pf = Some reason \<and>
                reason \<noteq> []) \<and>
         (case response_text response of
            None \<Rightarrow> v = JArr []
          | Some t \<Rightarrow>
              if trim t = [] then v = JArr []
              else \<exists>response2 t2.
                     generateContent E ai (formatPaperData_request (trim t)) = Inr response2 \<and>
                     response_text response2 = Some t2 \<and> JSON_parse E (trim t2) = Some v)))
   \<and> (fst (searchPapers_001 E' query) = Inr v' \<longleftrightarrow>
      (\<exists>response data raw response2 data2 output.
         fetch E' (proxy_request_001 (RawPaperDataPrompt query) ''gemini-2.5-pro'' [])
           = Inr response \<and>
         response_ok response \<and> JSON_parse E' (body_text response) = Some data \<and>
         extract_output_001 data = Inr raw \<and>
         fetch E' (proxy_request_001 (FormatPaperDataPrompt raw) ''gemini-2.5-flash'' [])
           = Inr response2 \<and>
         response_ok response2 \<and> JSON_parse E' (body_text response2) = Some data2 \<and>
         extract_output_001 data2 = Inr output \<and>
         JSON_parse E' output = Some v' \<and> isArray v'))"
proof -
  have direct: "fst (searchPapers E query) = Inr v \<longleftrightarrow>
      (\<exists>ai response.
         getAi E = Inr ai \<and>
         generateContent E ai (getRawPaperData_request query) = Inr response \<and>
         \<not> (\<exists>pf reason. promptFeedback response = Some pf \<and> blockReason pf = Some reason \<and>
                reason \<noteq> []) \<and>
         (case response_text response of
            None \<Rightarrow> v = JArr []
          | Some t \<Rightarrow>
              if trim t = [] then v = JArr []
              else \<exists>response2 t2.
                     generateContent E ai (formatPaperData_request (trim t)) = Inr response2 \<and>
                     response_text response2 = Some t2 \<and> JSON_parse E (trim t2) = Some v))"
    (is "?lhs \<longleftrightarrow> ?rhs")
  proof
    assume ?lhs
    then obtain ai raw where ai: "getAi E = Inr ai"
      and stage1: "fst (getRawPaperData E ai query) = Inr raw"
      and stage2: "fst (formatPaperData E ai raw) = Inr v"
      unfolding searchPapers_Inr_iff by blast
    from stage1 obtain response where answer:
      "generateContent E ai (getRawPaperData_request query) = Inr response"
      "\<not> (\<exists>pf reason. promptFeedback response = Some pf \<and> blockReason pf = Some reason \<and>
             reason \<noteq> [])"
      "raw = (case response_text response of None \<Rightarrow> [] | Some t \<Rightarrow> trim t)"
      unfolding getRawPaperData_Inr_iff by blast
    have "case response_text response of
            None \<Rightarrow> v = JArr []
          | Some t \<Rightarrow>
              if trim t = [] then v = JArr []
              else \<exists>response2 t2.
                     generateContent E ai (formatPaperData_request (trim t)) = Inr response2 \<and>
                     response_text response2 = Some t2 \<and> JSON_parse E (trim t2) = Some v"
      using stage2 answer(3) unfolding formatPaperData_Inr_iff
      by (auto simp: trim_trim trim_Nil split: option.splits)
    with ai answer(1,2) show ?rhs
      by blast
  next
    assume ?rhs
    then obtain ai response where ai: "getAi E = Inr ai"
      and answer: "generateContent E ai (getRawPaperData_request query) = Inr response"
        "\<not> (\<exists>pf reason. promptFeedback response = Some pf \<and> blockReason pf = Some reason \<and>
               reason \<noteq> [])"
      and rest: "case response_text response of
            None \<Rightarrow> v = JArr []
          | Some t \<Rightarrow>
              if trim t = [] then v = JArr []
              else \<exists>response2 t2.
                     generateContent E ai (formatPaperData_request (trim t)) = Inr response2 \<and>
                     response_text response2 = Some t2 \<and> JSON_parse E (trim t2) = Some v"
      by blast
    define raw where "raw = (case response_text response of None \<Rightarrow> [] | Some t \<Rightarrow> trim t)"
    from answer have stage1: "fst (getRawPaperData E ai query) = Inr raw"
      unfolding getRawPaperData_Inr_iff raw_def by blast
    from rest have "fst (formatPaperData E ai raw) = Inr v"
      unfolding formatPaperData_Inr_iff raw_def
      by (auto simp: trim_trim trim_Nil split: option.splits if_splits)
    with ai stage1 show ?lhs
      unfolding searchPapers_Inr_iff by blast
  qed
  have proxy: "fst (searchPapers_001 E' query) = Inr v' \<longleftrightarrow>
      (\<exists>response data raw response2 data2 output.
         fetch E' (proxy_request_001 (RawPaperDataPrompt query) ''gemini-2.5-pro'' [])
           = Inr response \<and>
         response_ok response \<and> JSON_parse E' (body_text response) = Some data \<and>
         extract_output_001 data = Inr raw \<and>
         fetch E' (proxy_request_001 (FormatPaperDataPrompt raw) ''gemini-2.5-flash'' [])
           = Inr response2 \<and>
         response_ok response2 \<and> JSON_parse E' (body_text response2) = Some data2 \<and>
         extract_output_001 data2 = Inr output \<and>
         JSON_parse E' output = Some v' \<and> isArray v')"
    (is "?lhs \<longleftrightarrow> ?rhs")
  proof
    assume ?lhs
    then obtain raw where stages: "fst (getRawPaperData_001 E' query) = Inr raw"
        "fst (formatPaperData_001 E' raw) = Inr v'"
      unfolding searchPapers_001_Inr_iff by blast
    from getRawPaperData_001_Inr [OF stages(1)] have raw: "trim raw \<noteq> []"
      by simp
    from stages(1) obtain response data where one:
      "fetch E' (proxy_request_001 (RawPaperDataPrompt query) ''gemini-2.5-pro'' []) = Inr response"
      "response_ok response" "JSON_parse E' (body_text response) = Some data"
      "extract_output_001 data = Inr raw"
      unfolding getRawPaperData_001_Inr_iff callGeminiProxy_001_Inr_iff by blast
    from stages(2) raw obtain response2 data2 out where two:
      "fetch E' (proxy_request_001 (FormatPaperDataPrompt raw) ''gemini-2.5-flash'' [])
         = Inr response2"
      "response_ok response2" "JSON_parse E' (body_text response2) = Some data2"
      "extract_output_001 data2 = Inr out" "JSON_parse E' out = Some v'" "isArray v'"
      unfolding formatPaperData_001_Inr_iff callGeminiProxy_001_Inr_iff by blast
    from one two show ?rhs
      by blast
  next
    assume ?rhs
    then obtain response data raw response2 data2 out where one:
      "fetch E' (proxy_request_001 (RawPaperDataPrompt query) ''gemini-2.5-pro'' []) = Inr response"
      "response_ok response" "JSON_parse E' (body_text response) = Some data"
      "extract_output_001 data = Inr raw"
      and two:
      "fetch E' (proxy_request_001 (FormatPaperDataPrompt raw) ''gemini-2.5-flash'' [])
         = Inr response2"
      "response_ok response2" "JSON_parse E' (body_text response2) = Some data2"
      "extract_output_001 data2 = Inr out" "JSON_parse E' out = Some v'" "isArray v'"
      by blast
    from one have stage1: "fst (getRawPaperData_001 E' query) = Inr raw"
      unfolding getRawPaperData_001_Inr_iff callGeminiProxy_001_Inr_iff by blast
    from extract_output_001_Inr [OF one(4)] have "trim raw \<noteq> []"
      by simp
    with two have "fst (formatPaperData_001 E' raw) = Inr v'"
      unfolding formatPaperData_001_Inr_iff callGeminiProxy_001_Inr_iff by blast
    with stage1 show ?lhs
      unfolding searchPapers_001_Inr_iff by blast
  qed
  from direct proxy show ?thesis
    by (rule conjI)
qed

theorem searchPapers_returns_parsed_value_witness:
  "fst (searchPapers env_bad_record ''q'') = Inr (JArr [bad_record])
   \<and> (\<exists>ai response.
         getAi env_bad_record = Inr ai \<and>
         generateContent env_bad_record ai (getRawPaperData_request ''q'') = Inr response \<and>
         \<not> (\<exists>pf reason. promptFeedback response = Some pf \<and> blockReason pf = Some reason \<and>
                reason \<noteq> []) \<and>
         (case response_text response of
            None \<Rightarrow> JArr [bad_record] = JArr []
          | Some t \<Rightarrow>
              if trim t = [] then JArr [bad_record] = JArr []
              else \<exists>response2 t2.
                     generateContent env_bad_record ai (formatPaperData_request (trim t))
                       = Inr response2 \<and>
                     response_text response2 = Some t2 \<and>
                     JSON_parse env_bad_record (trim t2) = Some (JArr [bad_record])))
   \<and> fst (searchPapers_001 env_empty_object_001 ''q'') = Inr (JArr [JObj []])
   \<and> (\<exists>response data raw response2 data2 output.
         fetch env_empty_object_001 (proxy_request_001 (RawPaperDataPrompt ''q'') ''gemini-2.5-pro'' [])
           = Inr response \<and>
         response_ok response \<and> JSON_parse env_empty_object_001 (body_text response) = Some data \<and>
         extract_output_001 data = Inr raw \<and>
         fetch env_empty_object_001
           (proxy_request_001 (FormatPaperDataPrompt raw) ''gemini-2.5-flash'' []) = Inr response2 \<and>
         response_ok response2 \<and>
         JSON_parse env_empty_object_001 (body_text response2) = Some data2 \<and>
         extract_output_001 data2 = Inr output \<and>
         JSON_parse env_empty_object_001 output = Some (JArr [JObj []]) \<and>
         isArray (JArr [JObj []]))"
proof -
  have direct: "fst (searchPapers env_bad_record ''q'') = Inr (JArr [bad_record])"
    by (simp add: searchPapers_env_bad_record)
  have proxy: "fst (searchPapers_001 env_empty_object_001 ''q'') = Inr (JArr [JObj []])"
    by (simp add: searchPapers_001_env_empty_object)
  note characterised = searchPapers_returns_parsed_value
    [of env_bad_record "''q''" "JArr [bad_record]" env_empty_object_001 "JArr [JObj []]"]
  from direct proxy characterised [THEN conjunct1, THEN iffD1, OF direct]
    characterised [THEN conjunct2, THEN iffD1, OF proxy]
  show ?thesis
    by (intro conjI)
qed

text \<open>
  C8, as stated, fails: an error raised inside a stage does not always reach the caller as
  it was raised. In the direct client, a backend call rejected in stage 2 with the
  \<^verbatim>\<open>TypeError\<close> \<^verbatim>\<open>fetch failed\<close> reaches the caller as the fixed stage 2 error. In the proxy
  client, the error \<^verbatim>\<open>Proxy request failed (500): ...\<close> raised in stage 1 reaches the caller as
  the fixed stage 1 error.
\<close>

theorem searchPapers_wraps_stage_errors:
  "generateContent env_stage2_down \<lparr>apiKey = ''k''\<rparr> (formatPaperData_request ''Title: T'')
     = Inl (Error ''TypeError'' ''fetch failed'')
   \<and> searchPapers env_stage2_down ''q'' =
       (Inl formatPaperData_error,
        [getRawPaperData_request ''q'', formatPaperData_request ''Title: T''])
   \<and> formatPaperData_error \<noteq> Error ''TypeError'' ''fetch failed''
   \<and> callGeminiProxy_001_try env_proxy_500
         (proxy_request_001 (RawPaperDataPrompt ''q'') ''gemini-2.5-pro'' [])
       = Inl (Error ''Error''
           ''Proxy request failed (500): {\"error\":\"Missing GEMINI_API_KEY in environment\"}'')
   \<and> searchPapers_001 env_proxy_500 ''q'' =
       (Inl getRawPaperData_001_error,
        [proxy_request_001 (RawPaperDataPrompt ''q'') ''gemini-2.5-pro'' []])"
proof -
  have a: "generateContent env_stage2_down \<lparr>apiKey = ''k''\<rparr>
             (formatPaperData_request ''Title: T'') = Inl (Error ''TypeError'' ''fetch failed'')"
    by (simp add: env_stage2_down_def formatPaperData_request_def)
  have b: "searchPapers env_stage2_down ''q'' =
       (Inl formatPaperData_error,
        [getRawPaperData_request ''q'', formatPaperData_request ''Title: T''])"
    by (simp add: direct_search_defs env_stage2_down_def formatPaperData_error_def)
  have c: "formatPaperData_error \<noteq> Error ''TypeError'' ''fetch failed''"
    by (simp add: formatPaperData_error_def)
  have d: "callGeminiProxy_001_try env_proxy_500
         (proxy_request_001 (RawPaperDataPrompt ''q'') ''gemini-2.5-pro'' [])
       = Inl (Error ''Error''
           ''Proxy request failed (500): {\"error\":\"Missing GEMINI_API_KEY in environment\"}'')"
    by (simp add: callGeminiProxy_001_try_def env_proxy_500_def response_ok_def)
  have e: "searchPapers_001 env_proxy_500 ''q'' =
       (Inl getRawPaperData_001_error,
        [proxy_request_001 (RawPaperDataPrompt ''q'') ''gemini-2.5-pro'' []])"
    by (simp add: proxy_search_defs env_proxy_500_def getRawPaperData_001_error_def)
  from a b c d e show ?thesis
    by (intro conjI)
qed

text \<open>
  C8, amended. In the direct client, an error raised in stage 1 reaches the caller as it is
  when it is a standard \<^verbatim>\<open>Error\<close> (a rejection of the backend call, the safety-block error)
  and as the unexpected-error otherwise; every failure inside stage 2 (rejected call, no
  text, text that is not JSON) reaches the caller as the fixed stage 2 error. In the proxy
  client, every failure of the stage 1 proxy call reaches the caller as the fixed stage 1
  error, and every failure inside stage 2 as the fixed stage 2 error. A stage rejects in no
  other case and with no other error, and \<open>searchPapers\<close> lets through whatever a stage
  function rejects with: the same value when it is a standard \<^verbatim>\<open>Error\<close>, its
  unexpected-error otherwise.
\<close>

theorem searchPapers_error_propagation:
  "(getAi E = Inr ai \<and> generateContent E ai (getRawPaperData_request query) = Inl e
      \<longrightarrow> fst (searchPapers E query) =
            (if instanceof_Error e then Inl e else Inl searchPapers_error))
   \<and> (getAi E = Inr ai \<and> generateContent E ai (getRawPaperData_request query) = Inr response
        \<and> promptFeedback response = Some pf \<and> blockReason pf = Some reason \<and> reason \<noteq> []
      \<longrightarrow> fst (searchPapers E query) =
            Inl (safety_error reason (blockedCategories (safetyRatings pf))))
   \<and> (getAi E = Inr ai \<and> generateContent E ai (getRawPaperData_request query) = Inr response
        \<and> \<not> (\<exists>pf reason. promptFeedback response = Some pf \<and> blockReason pf = Some reason \<and>
                 reason \<noteq> [])
        \<and> response_text response = Some t \<and> trim t \<noteq> [] \<and> stage2_failure E ai (trim t)
      \<longrightarrow> fst (searchPapers E query) = Inl formatPaperData_error)
   \<and> (fst (formatPaperData E ai raw) = Inl e \<longleftrightarrow>
        trim raw \<noteq> [] \<and> stage2_failure E ai raw \<and> e = formatPaperData_error)
   \<and> (proxy_call_failure_001 E'
          (proxy_request_001 (RawPaperDataPrompt query) ''gemini-2.5-pro'' [])
      \<longrightarrow> fst (searchPapers_001 E' query) = Inl getRawPaperData_001_error)
   \<and> (fetch E' (proxy_request_001 (RawPaperDataPrompt query) ''gemini-2.5-pro'' []) = Inr reply
        \<and> response_ok reply \<and> JSON_parse E' (body_text reply) = Some data
        \<and> extract_output_001 data = Inr raw \<and> stage2_failure_001 E' raw
      \<longrightarrow> fst (searchPapers_001 E' query) = Inl formatPaperData_001_error)
   \<and> (fst (getRawPaperData_001 E' query) = Inl e \<longleftrightarrow>
        proxy_call_failure_001 E'
          (proxy_request_001 (RawPaperDataPrompt query) ''gemini-2.5-pro'' [])
        \<and> e = getRawPaperData_001_error)
   \<and> (fst (formatPaperData_001 E' raw) = Inl e \<longleftrightarrow>
        trim raw \<noteq> [] \<and> stage2_failure_001 E' raw \<and> e = formatPaperData_001_error)
   \<and> (getAi E = Inr ai \<and> fst (getRawPaperData E ai query) = Inl e
      \<longrightarrow> fst (searchPapers E query) =
            (if instanceof_Error e then Inl e else Inl searchPapers_error))
   \<and> (getAi E = Inr ai \<and> fst (getRawPaperData E ai query) = Inr raw
        \<and> fst (formatPaperData E ai raw) = Inl e
      \<longrightarrow> fst (searchPapers E query) =
            (if instanceof_Error e then Inl e else Inl searchPapers_error))
   \<and> (fst (getRawPaperData_001 E' query) = Inl e
      \<longrightarrow> fst (searchPapers_001 E' query) =
            (if instanceof_Error e then Inl e else Inl searchPapers_001_error))
   \<and> (fst (getRawPaperData_001 E' query) = Inr raw \<and> fst (formatPaperData_001 E' raw) = Inl e
      \<longrightarrow> fst (searchPapers_001 E' query) =
            (if instanceof_Error e then Inl e else Inl searchPapers_001_error))
   \<and> (fst (getRawPaperData E ai query) = Inl e \<longleftrightarrow>
        generateContent E ai (getRawPaperData_request query) = Inl e \<or>
        (\<exists>blocked_response feedback why.
           generateContent E ai (getRawPaperData_request query) = Inr blocked_response \<and>
           promptFeedback blocked_response = Some feedback \<and>
           blockReason feedback = Some why \<and> why \<noteq> [] \<and>
           e = safety_error why (blockedCategories (safetyRatings feedback))))"
proof -
  have d1: "fst (searchPapers E query) =
              (if instanceof_Error e then Inl e else Inl searchPapers_error)"
    if "getAi E = Inr ai" "generateContent E ai (getRawPaperData_request query) = Inl e"
    using that searchPapers_stage1_rejects [of E ai query e] getRawPaperData_rethrows [of E ai query e]
    by simp
  have d2: "fst (searchPapers E query) =
              Inl (safety_error reason (blockedCategories (safetyRatings pf)))"
    if "getAi E = Inr ai" "generateContent E ai (getRawPaperData_request query) = Inr response"
      "promptFeedback response = Some pf" "blockReason pf = Some reason" "reason \<noteq> []"
  proof -
    have "fst (getRawPaperData E ai query) =
            Inl (safety_error reason (blockedCategories (safetyRatings pf)))"
      unfolding getRawPaperData_Inl_iff using that by blast
    with that(1) show ?thesis
      using searchPapers_stage1_rejects
        [of E ai query "safety_error reason (blockedCategories (safetyRatings pf))"]
      by (simp add: safety_error_def)
  qed
  have d3: "fst (searchPapers E query) = Inl formatPaperData_error"
    if "getAi E = Inr ai" "generateContent E ai (getRawPaperData_request query) = Inr response"
      "\<not> (\<exists>pf reason. promptFeedback response = Some pf \<and> blockReason pf = Some reason \<and>
             reason \<noteq> [])"
      "response_text response = Some t" "trim t \<noteq> []" "stage2_failure E ai (trim t)"
  proof -
    have stage1: "fst (getRawPaperData E ai query) = Inr (trim t)"
      unfolding getRawPaperData_Inr_iff using that(2,3,4) by auto
    have "fst (formatPaperData E ai (trim t)) = Inl formatPaperData_error"
      unfolding formatPaperData_Inl_iff using that(5,6) by (simp add: trim_trim)
    with that(1) stage1 show ?thesis
      using searchPapers_stage2_rejects [of E ai query "trim t" formatPaperData_error]
      by (simp add: formatPaperData_error_def)
  qed
  have p1: "fst (searchPapers_001 E' query) = Inl getRawPaperData_001_error"
    if "proxy_call_failure_001 E'
          (proxy_request_001 (RawPaperDataPrompt query) ''gemini-2.5-pro'' [])"
  proof -
    from that have "fst (getRawPaperData_001 E' query) = Inl getRawPaperData_001_error"
      unfolding getRawPaperData_001_Inl_iff by simp
    then show ?thesis
      using searchPapers_001_stage1_rejects [of E' query getRawPaperData_001_error]
      by (simp add: getRawPaperData_001_error_def)
  qed
  have p2: "fst (searchPapers_001 E' query) = Inl formatPaperData_001_error"
    if "fetch E' (proxy_request_001 (RawPaperDataPrompt query) ''gemini-2.5-pro'' []) = Inr reply"
      "response_ok reply" "JSON_parse E' (body_text reply) = Some data"
      "extract_output_001 data = Inr raw" "stage2_failure_001 E' raw"
  proof -
    from that(1-4) have stage1: "fst (getRawPaperData_001 E' query) = Inr raw"
      unfolding getRawPaperData_001_Inr_iff callGeminiProxy_001_Inr_iff by blast
    from extract_output_001_Inr [OF that(4)] have "trim raw \<noteq> []"
      by simp
    with that(5) have "fst (formatPaperData_001 E' raw) = Inl formatPaperData_001_error"
      unfolding formatPaperData_001_Inl_iff by simp
    with stage1 show ?thesis
      using searchPapers_001_stage2_rejects [of E' query raw formatPaperData_001_error]
      by (simp add: formatPaperData_001_error_def)
  qed
  have c1: "getAi E = Inr ai \<and> generateContent E ai (getRawPaperData_request query) = Inl e
      \<longrightarrow> fst (searchPapers E query) =
            (if instanceof_Error e then Inl e else Inl searchPapers_error)"
    using d1 by blast
  have c2: "getAi E = Inr ai \<and> generateContent E ai (getRawPaperData_request query) = Inr response
        \<and> promptFeedback response = Some pf \<and> blockReason pf = Some reason \<and> reason \<noteq> []
      \<longrightarrow> fst (searchPapers E query) =
            Inl (safety_error reason (blockedCategories (safetyRatings pf)))"
    using d2 by blast
  have c3: "getAi E = Inr ai \<and> generateContent E ai (getRawPaperData_request query) = Inr response
        \<and> \<not> (\<exists>pf reason. promptFeedback response = Some pf \<and> blockReason pf = Some reason \<and>
                 reason \<noteq> [])
        \<and> response_text response = Some t \<and> trim t \<noteq> [] \<and> stage2_failure E ai (trim t)
      \<longrightarrow> fst (searchPapers E query) = Inl formatPaperData_error"
    using d3 by blast
  have c4: "fst (formatPaperData E ai raw) = Inl e \<longleftrightarrow>
        trim raw \<noteq> [] \<and> stage2_failure E ai raw \<and> e = formatPaperData_error"
    by (rule formatPaperData_Inl_iff)
  have c5: "proxy_call_failure_001 E'
          (proxy_request_001 (RawPaperDataPrompt query) ''gemini-2.5-pro'' [])
      \<longrightarrow> fst (searchPapers_001 E' query) = Inl getRawPaperData_001_error"
    using p1 by blast
  have c6: "fetch E' (proxy_request_001 (RawPaperDataPrompt query) ''gemini-2.5-pro'' []) = Inr reply
        \<and> response_ok reply \<and> JSON_parse E' (body_text reply) = Some data
        \<and> extract_output_001 data = Inr raw \<and> stage2_failure_001 E' raw
      \<longrightarrow> fst (searchPapers_001 E' query) = Inl formatPaperData_001_error"
    using p2 by blast
  have c7: "fst (getRawPaperData_001 E' query) = Inl e \<longleftrightarrow>
        proxy_call_failure_001 E'
          (proxy_request_001 (RawPaperDataPrompt query) ''gemini-2.5-pro'' [])
        \<and> e = getRawPaperData_001_error"
    by (rule getRawPaperData_001_Inl_iff)
  have c8: "fst (formatPaperData_001 E' raw) = Inl e \<longleftrightarrow>
        trim raw \<noteq> [] \<and> stage2_failure_001 E' raw \<and> e = formatPaperData_001_error"
    by (rule formatPaperData_001_Inl_iff)
  have c9: "getAi E = Inr ai \<and> fst (getRawPaperData E ai query) = Inl e
      \<longrightarrow> fst (searchPapers E query) =
            (if instanceof_Error e then Inl e else Inl searchPapers_error)"
    using searchPapers_stage1_rejects [of E ai query e] by blast
  have c10: "getAi E = Inr ai \<and> fst (getRawPaperData E ai query) = Inr raw
        \<and> fst (formatPaperData E ai raw) = Inl e
      \<longrightarrow> fst (searchPapers E query) =
            (if instanceof_Error e then Inl e else Inl searchPapers_error)"
    using searchPapers_stage2_rejects [of E ai query raw e] by blast
  have c11: "fst (getRawPaperData_001 E' query) = Inl e
      \<longrightarrow> fst (searchPapers_001 E' query) =
            (if instanceof_Error e then Inl e else Inl searchPapers_001_error)"
    using searchPapers_001_stage1_rejects [of E' query e] by blast
  have c12: "fst (getRawPaperData_001 E' query) = Inr raw \<and> fst (formatPaperData_001 E' raw) = Inl e
      \<longrightarrow> fst (searchPapers_001 E' query) =
            (if instanceof_Error e then Inl e else Inl searchPapers_001_error)"
    using searchPapers_001_stage2_rejects [of E' query raw e] by blast
  have c13: "fst (getRawPaperData E ai query) = Inl e \<longleftrightarrow>
        generateContent E ai (getRawPaperData_request query) = Inl e \<or>
        (\<exists>blocked_response feedback why.
           generateContent E ai (getRawPaperData_request query) = Inr blocked_response \<and>
           promptFeedback blocked_response = Some feedback \<and>
           blockReason feedback = Some why \<and> why \<noteq> [] \<and>
           e = safety_error why (blockedCategories (safetyRatings feedback)))"
    by (rule getRawPaperData_Inl_iff)
  from c1 c2 c3 c4 c5 c6 c7 c8 c9 c10 c11 c12 c13 show ?thesis
    by (intro conjI)
qed

theorem searchPapers_error_propagation_witness:
  "getAi env_backend_down = Inr \<lparr>apiKey = ''k''\<rparr>
   \<and> generateContent env_backend_down \<lparr>apiKey = ''k''\<rparr> (getRawPaperData_request ''q'')
       = Inl (Error ''TypeError'' ''fetch failed'')
   \<and> fst (searchPapers env_backend_down ''q'') = Inl (Error ''TypeError'' ''fetch failed'')
   \<and> generateContent env_throws_string \<lparr>apiKey = ''k''\<rparr> (getRawPaperData_request ''q'')
       = Inl (NonError (JStr ''quota exceeded''))
   \<and> fst (searchPapers env_throws_string ''q'') = Inl searchPapers_error
   \<and> stage2_failure env_stage2_down \<lparr>apiKey = ''k''\<rparr> ''Title: T''
   \<and> fst (searchPapers env_stage2_down ''q'') = Inl formatPaperData_error
   \<and> proxy_call_failure_001 env_proxy_500
         (proxy_request_001 (RawPaperDataPrompt ''q'') ''gemini-2.5-pro'' [])
   \<and> fst (searchPapers_001 env_proxy_500 ''q'') = Inl getRawPaperData_001_error"
proof -
  let ?ai = "\<lparr>apiKey = ''k''\<rparr>"
  let ?found = "\<lparr>promptFeedback = None, response_text = Some ''Title: T''\<rparr>"
  have ai1: "getAi env_backend_down = Inr ?ai"
    by (simp add: getAi_def env_backend_down_def)
  have ai2: "getAi env_throws_string = Inr ?ai"
    by (simp add: getAi_def env_throws_string_def)
  have ai3: "getAi env_stage2_down = Inr ?ai"
    by (simp add: getAi_def env_stage2_down_def)
  have down: "generateContent env_backend_down ?ai (getRawPaperData_request ''q'')
       = Inl (Error ''TypeError'' ''fetch failed'')"
    by (simp add: env_backend_down_def)
  have thrown: "generateContent env_throws_string ?ai (getRawPaperData_request ''q'')
       = Inl (NonError (JStr ''quota exceeded''))"
    by (simp add: env_throws_string_def)
  have found: "generateContent env_stage2_down ?ai (getRawPaperData_request ''q'') = Inr ?found"
    by (simp add: env_stage2_down_def getRawPaperData_request_def)
  have unblocked: "\<not> (\<exists>pf reason. promptFeedback ?found = Some pf \<and> blockReason pf = Some reason \<and>
                       reason \<noteq> [])"
    by simp
  have has_text: "response_text ?found = Some ''Title: T''"
    by simp
  have trimmed: "trim ''Title: T'' = ''Title: T''"
    by (simp add: trim_def is_space_def)
  have failing: "stage2_failure env_stage2_down ?ai ''Title: T''"
    by (simp add: stage2_failure_def env_stage2_down_def formatPaperData_request_def)
  have proxy: "proxy_call_failure_001 env_proxy_500
         (proxy_request_001 (RawPaperDataPrompt ''q'') ''gemini-2.5-pro'' [])"
    by (simp add: proxy_call_failure_001_def env_proxy_500_def response_ok_def)
  have r1: "fst (searchPapers env_backend_down ''q'') = Inl (Error ''TypeError'' ''fetch failed'')"
    using searchPapers_error_propagation
      [of env_backend_down ?ai "''q''" "Error ''TypeError'' ''fetch failed''", THEN conjunct1]
      ai1 down
    by simp
  have r2: "fst (searchPapers env_throws_string ''q'') = Inl searchPapers_error"
    using searchPapers_error_propagation
      [of env_throws_string ?ai "''q''" "NonError (JStr ''quota exceeded'')", THEN conjunct1]
      ai2 thrown
    by simp
  have r3: "fst (searchPapers env_stage2_down ''q'') = Inl formatPaperData_error"
    using searchPapers_error_propagation
      [of env_stage2_down ?ai "''q''" _ ?found _ _ "''Title: T''",
        THEN conjunct2, THEN conjunct2, THEN conjunct1]
      ai3 found unblocked has_text trimmed failing
    by simp
  have r4: "fst (searchPapers_001 env_proxy_500 ''q'') = Inl getRawPaperData_001_error"
    using searchPapers_error_propagation
      [of _ _ "''q''" _ _ _ _ _ _ env_proxy_500,
        THEN conjunct2, THEN conjunct2, THEN conjunct2, THEN conjunct2, THEN conjunct1]
      proxy
    by (rule mp)
  from ai1 down r1 thrown r2 failing r3 proxy r4 show ?thesis
    by (intro conjI)
qed


section \<open>The output normaliser\<close>

text \<open>
  C4. The extraction step of part\_000 reads the \<^verbatim>\<open>output\<close> field and the nested candidate
  text only. On the reply \<^verbatim>\<open>{"text":"hello"}\<close>, the shape the relay of this repository
  sends, it finds nothing and \<open>callGeminiProxy\<close> fails, where the extraction step of part\_001
  returns \<^verbatim>\<open>hello\<close>. It also tests emptiness before trimming: an \<^verbatim>\<open>output\<close> of two blanks is
  returned as the empty string, where part\_001 fails with its empty-response error.
\<close>

theorem callGeminiProxy_000_ignores_text:
  "extract_output_000 (JObj [(''text'', JStr ''hello'')]) = Inl empty_response_000
   \<and> callGeminiProxy_000 env_text_reply (SuggestionsPrompt ''q'') ''gemini-2.5-flash'' =
       (Inl callGeminiProxy_000_error,
        [proxy_request_000 (SuggestionsPrompt ''q'') ''gemini-2.5-flash''])
   \<and> extract_output_001 (JObj [(''text'', JStr ''hello'')]) = Inr ''hello''
   \<and> extract_output_000 (JObj [(''output'', JStr ''  '')]) = Inr []
   \<and> extract_output_001 (JObj [(''output'', JStr ''  '')]) = Inl empty_response_001"
proof -
  have a: "extract_output_000 (JObj [(''text'', JStr ''hello'')]) = Inl empty_response_000"
    by (simp add: proxy_000_defs)
  have b: "callGeminiProxy_000 env_text_reply (SuggestionsPrompt ''q'') ''gemini-2.5-flash'' =
       (Inl callGeminiProxy_000_error,
        [proxy_request_000 (SuggestionsPrompt ''q'') ''gemini-2.5-flash''])"
    by (simp add: proxy_000_defs env_text_reply_def)
  have c: "extract_output_001 (JObj [(''text'', JStr ''hello'')]) = Inr ''hello''"
    by (simp add: proxy_search_defs)
  have d: "extract_output_000 (JObj [(''output'', JStr ''  '')]) = Inr []"
    by (simp add: proxy_000_defs)
  have e: "extract_output_001 (JObj [(''output'', JStr ''  '')]) = Inl empty_response_001"
    by (simp add: proxy_search_defs)
  from a b c d e show ?thesis by simp
qed

text \<open>
  In general: each extraction step returns the first truthy value of its list of shapes.
  That of part\_001 tries \<^verbatim>\<open>output\<close>, \<^verbatim>\<open>text\<close> and the nested candidate text, and throws its
  empty-response error when none is truthy or the match trims to the empty string; that of
  part\_000 tries \<^verbatim>\<open>output\<close> and the nested candidate text only, and returns the trimmed
  match whatever it is. A truthy match that is not a string has no \<^verbatim>\<open>trim\<close> method.
\<close>

lemma extract_output_001_first_match:
  "extract_output_001 data =
     (case find truthy [get_prop (Some data) ''output'', get_prop (Some data) ''text'',
                        candidate_text (Some data)] of
        Some (Some (JStr s)) \<Rightarrow> if trim s = [] then Inl empty_response_001 else Inr (trim s)
      | Some (Some other) \<Rightarrow> Inl TypeError_not_a_function
      | none \<Rightarrow> Inl empty_response_001)"
  by (auto simp: extract_output_001_def or_js_def trim_Nil split: option.splits json.splits)

lemma extract_output_000_first_match:
  "extract_output_000 data =
     (case find truthy [get_prop (Some data) ''output'', candidate_text (Some data)] of
        Some (Some (JStr s)) \<Rightarrow> Inr (trim s)
      | Some (Some other) \<Rightarrow> Inl TypeError_not_a_function
      | none \<Rightarrow> Inl empty_response_000)"
  by (auto simp: extract_output_000_def or_js_def split: option.splits json.splits)


section \<open>The single-shot transforms\<close>

text \<open>
  C6. \<open>generateSuggestions\<close> always resolves, in the direct client and in the proxy client of
  part\_000: whenever the client cannot be acquired, the backend call, the extraction of the
  text or the JSON parse fails, it resolves with the empty array.
\<close>

theorem generateSuggestions_never_rejects:
  "(\<exists>v. fst (generateSuggestions E query) = Inr v)
   \<and> (direct_failure E (generateSuggestions_request query)
        \<longrightarrow> fst (generateSuggestions E query) = Inr (JArr []))
   \<and> (\<exists>v. fst (generateSuggestions_000 E' query) = Inr v)
   \<and> (proxy_000_failure E' (proxy_request_000 (SuggestionsPrompt query) ''gemini-2.5-flash'')
        \<longrightarrow> fst (generateSuggestions_000 E' query) = Inr (JArr []))"
proof -
  obtain outcome calls where direct:
    "generate_try E (generateSuggestions_request query) = (outcome, calls)"
    by (cases "generate_try E (generateSuggestions_request query)")
  have d1: "\<exists>v. fst (generateSuggestions E query) = Inr v"
    by (cases outcome) (simp_all add: generateSuggestions_def direct try_catch_def)
  have d2: "fst (generateSuggestions E query) = Inr (JArr [])"
    if "direct_failure E (generateSuggestions_request query)"
    using that direct
    by (auto simp: generate_try_failure generateSuggestions_def try_catch_def)
  obtain outcome' calls' where proxy:
    "generate_000_try E' (SuggestionsPrompt query) ''gemini-2.5-flash'' = (outcome', calls')"
    by (cases "generate_000_try E' (SuggestionsPrompt query) ''gemini-2.5-flash''")
  have p1: "\<exists>v. fst (generateSuggestions_000 E' query) = Inr v"
    by (cases outcome') (simp_all add: generateSuggestions_000_def proxy try_catch_def)
  have p2: "fst (generateSuggestions_000 E' query) = Inr (JArr [])"
    if "proxy_000_failure E' (proxy_request_000 (SuggestionsPrompt query) ''gemini-2.5-flash'')"
    using that proxy
    by (auto simp: generate_000_try_failure generateSuggestions_000_def try_catch_def)
  from d1 d2 p1 p2 show ?thesis
    by blast
qed

theorem generateSuggestions_never_rejects_witness:
  "direct_failure env_backend_down (generateSuggestions_request ''q'')
   \<and> fst (generateSuggestions env_backend_down ''q'') = Inr (JArr [])
   \<and> proxy_000_failure env_proxy_500 (proxy_request_000 (SuggestionsPrompt ''q'') ''gemini-2.5-flash'')
   \<and> fst (generateSuggestions_000 env_proxy_500 ''q'') = Inr (JArr [])"
proof -
  have d: "direct_failure env_backend_down (generateSuggestions_request ''q'')"
    by (simp add: direct_failure_def env_backend_down_def getClient_def)
  have p: "proxy_000_failure env_proxy_500
             (proxy_request_000 (SuggestionsPrompt ''q'') ''gemini-2.5-flash'')"
    by (simp add: proxy_000_failure_def env_proxy_500_def response_ok_def)
  from generateSuggestions_never_rejects [of env_backend_down "''q''" env_proxy_500] d p
  show ?thesis
    by blast
qed

text \<open>
  C7. In the direct client, \<open>generateComparison\<close>, \<open>generateKnowledgeGraph\<close> and
  \<open>generateSinglePaperAnalysis\<close> reject on every failure (no client, transport, no text,
  unparseable text) with their own error, whose message is a fixed sentence; the three errors
  differ. When one of them resolves, its value is the value \<^verbatim>\<open>JSON.parse\<close> gave for the whole
  trimmed text of the response: no partial and no default value is returned.
\<close>

theorem transforms_fail_fatally:
  "(direct_failure E (generateComparison_request papers)
      \<longrightarrow> fst (generateComparison E papers) = Inl generateComparison_error)
   \<and> (direct_failure E (generateKnowledgeGraph_request papers)
      \<longrightarrow> fst (generateKnowledgeGraph E papers) = Inl generateKnowledgeGraph_error)
   \<and> (direct_failure E (generateSinglePaperAnalysis_request paper)
      \<longrightarrow> fst (generateSinglePaperAnalysis E paper) = Inl generateSinglePaperAnalysis_error)
   \<and> (fst (generateComparison E papers) = Inr v \<longrightarrow>
        (\<exists>ai response t. getClient E = Inr ai \<and>
           generateContent E ai (generateComparison_request papers) = Inr response \<and>
           response_text response = Some t \<and> JSON_parse E (trim t) = Some v))
   \<and> (fst (generateKnowledgeGraph E papers) = Inr v \<longrightarrow>
        (\<exists>ai response t. getClient E = Inr ai \<and>
           generateContent E ai (generateKnowledgeGraph_request papers) = Inr response \<and>
           response_text response = Some t \<and> JSON_parse E (trim t) = Some v))
   \<and> (fst (generateSinglePaperAnalysis E paper) = Inr v \<longrightarrow>
        (\<exists>ai response t. getClient E = Inr ai \<and>
           generateContent E ai (generateSinglePaperAnalysis_request paper) = Inr response \<and>
           response_text response = Some t \<and> JSON_parse E (trim t) = Some v))
   \<and> message generateComparison_error =
        ''Failed to generate the paper comparison due to an AI processing error.''
   \<and> message generateKnowledgeGraph_error =
        ''Failed to generate the knowledge graph due to an AI processing error.''
   \<and> message generateSinglePaperAnalysis_error =
        ''Failed to generate the paper analysis due to an AI processing error.''
   \<and> distinct [generateComparison_error, generateKnowledgeGraph_error,
                 generateSinglePaperAnalysis_error]"
proof -
  note c = fatal_transform [OF generateComparison_def, where v = v]
  note k = fatal_transform [OF generateKnowledgeGraph_def, where v = v]
  note a = fatal_transform [OF generateSinglePaperAnalysis_def, where v = v]
  have different: "distinct [generateComparison_error, generateKnowledgeGraph_error,
                  generateSinglePaperAnalysis_error]"
    by (simp add: generateComparison_error_def generateKnowledgeGraph_error_def
        generateSinglePaperAnalysis_error_def)
  show ?thesis
  proof (intro conjI)
    show "direct_failure E (generateComparison_request papers)
      \<longrightarrow> fst (generateComparison E papers) = Inl generateComparison_error"
      using c by (rule conjunct1)
    show "direct_failure E (generateKnowledgeGraph_request papers)
      \<longrightarrow> fst (generateKnowledgeGraph E papers) = Inl generateKnowledgeGraph_error"
      using k by (rule conjunct1)
    show "direct_failure E (generateSinglePaperAnalysis_request paper)
      \<longrightarrow> fst (generateSinglePaperAnalysis E paper) = Inl generateSinglePaperAnalysis_error"
      using a by (rule conjunct1)
    show "fst (generateComparison E papers) = Inr v \<longrightarrow>
        (\<exists>ai response t. getClient E = Inr ai \<and>
           generateContent E ai (generateComparison_request papers) = Inr response \<and>
           response_text response = Some t \<and> JSON_parse E (trim t) = Some v)"
      using c by (rule conjunct2)
    show "fst (generateKnowledgeGraph E papers) = Inr v \<longrightarrow>
        (\<exists>ai response t. getClient E = Inr ai \<and>
           generateContent E ai (generateKnowledgeGraph_request papers) = Inr response \<and>
           response_text response = Some t \<and> JSON_parse E (trim t) = Some v)"
      using k by (rule conjunct2)
    show "fst (generateSinglePaperAnalysis E paper) = Inr v \<longrightarrow>
        (\<exists>ai response t. getClient E = Inr ai \<and>
           generateContent E ai (generateSinglePaperAnalysis_request paper) = Inr response \<and>
           response_text response = Some t \<and> JSON_parse E (trim t) = Some v)"
      using a by (rule conjunct2)
    show "message generateComparison_error =
        ''Failed to generate the paper comparison due to an AI processing error.''"
      by (simp add: generateComparison_error_def)
    show "message generateKnowledgeGraph_error =
        ''Failed to generate the knowledge graph due to an AI processing error.''"
      by (simp add: generateKnowledgeGraph_error_def)
    show "message generateSinglePaperAnalysis_error =
        ''Failed to generate the paper analysis due to an AI processing error.''"
      by (simp add: generateSinglePaperAnalysis_error_def)
    show "distinct [generateComparison_error, generateKnowledgeGraph_error,
                  generateSinglePaperAnalysis_error]"
      by (rule different)
  qed
qed

theorem transforms_fail_fatally_witness:
  "direct_failure env_backend_down (generateComparison_request [])
   \<and> fst (generateComparison env_backend_down []) = Inl generateComparison_error
   \<and> fst (generateKnowledgeGraph env_backend_down []) = Inl generateKnowledgeGraph_error
   \<and> fst (generateComparison env_no_key []) = Inl generateComparison_error
   \<and> fst (generateComparison env_comparison []) = Inr comparison_value
   \<and> (\<exists>ai response t. getClient env_comparison = Inr ai \<and>
         generateContent env_comparison ai (generateComparison_request []) = Inr response \<and>
         response_text response = Some t \<and>
         JSON_parse env_comparison (trim t) = Some comparison_value)"
proof -
  have down: "direct_failure env_backend_down req" for req
    by (simp add: direct_failure_def env_backend_down_def getClient_def)
  have no_key: "direct_failure env_no_key req" for req
    by (simp add: direct_failure_def env_no_key_def getClient_def)
  have ok: "fst (generateComparison env_comparison []) = Inr comparison_value"
    by (simp add: generateComparison_def generate_try_def getClient_def env_comparison_def
        parse_response_text_def parse_json_def try_catch_def trim_def is_space_def
        comparison_text_def)
  have 1: "fst (generateComparison env_backend_down []) = Inl generateComparison_error"
    using transforms_fail_fatally [of env_backend_down "[]", THEN conjunct1] down
    by (rule mp)
  have 2: "fst (generateKnowledgeGraph env_backend_down []) = Inl generateKnowledgeGraph_error"
    using transforms_fail_fatally [of env_backend_down "[]", THEN conjunct2, THEN conjunct1] down
    by (rule mp)
  have 3: "fst (generateComparison env_no_key []) = Inl generateComparison_error"
    using transforms_fail_fatally [of env_no_key "[]", THEN conjunct1] no_key
    by (rule mp)
  have 4: "\<exists>ai response t. getClient env_comparison = Inr ai \<and>
         generateContent env_comparison ai (generateComparison_request []) = Inr response \<and>
         response_text response = Some t \<and>
         JSON_parse env_comparison (trim t) = Some comparison_value"
    using transforms_fail_fatally [of env_comparison "[]" _ comparison_value,
        THEN conjunct2, THEN conjunct2, THEN conjunct2, THEN conjunct1] ok
    by (rule mp)
  from down 1 2 3 ok 4 show ?thesis
    by (intro conjI)
qed


section \<open>The relay\<close>

text \<open>
  C9, as stated, fails in its last part: the empty-output path of the client can be reached
  through the relay. A backend text of one blank is truthy, so the relay passes it on as
  \<^verbatim>\<open>{"text":" "}\<close>; the extraction step of part\_001 trims it to the empty string and throws
  its empty-response error, and \<open>searchPapers\<close> rejects.
\<close>

theorem relay_blank_text_reaches_empty_output:
  "candidate_text (Some blank_candidate_value) = Some (JStr '' '')
   \<and> truthy (Some (JStr '' ''))
   \<and> relay_fetch env_relay_blank \<lparr>request_body = relay_request_body\<rparr> =
       Inr \<lparr>reply_status = 200, reply_value = JObj [(''text'', JStr '' '')]\<rparr>
   \<and> extract_output_001 (JObj [(''text'', JStr '' '')]) = Inl empty_response_001
   \<and> callGeminiProxy_001_try env_proxy_blank
         (proxy_request_001 (RawPaperDataPrompt ''q'') ''gemini-2.5-pro'' [])
       = Inl empty_response_001
   \<and> fst (searchPapers_001 env_proxy_blank ''q'') = Inl getRawPaperData_001_error"
proof -
  have a: "candidate_text (Some blank_candidate_value) = Some (JStr '' '')"
    by (simp add: candidate_text_def blank_candidate_value_def)
  have b: "relay_fetch env_relay_blank \<lparr>request_body = relay_request_body\<rparr> =
       Inr \<lparr>reply_status = 200, reply_value = JObj [(''text'', JStr '' '')]\<rparr>"
    by (simp add: relay_defs env_relay_blank_def relay_request_body_def
        relay_request_value_def blank_candidate_body_def blank_candidate_value_def)
  have c: "extract_output_001 (JObj [(''text'', JStr '' '')]) = Inl empty_response_001"
    by (simp add: extract_output_001_def or_js_def candidate_text_def trim_def is_space_def)
  have d: "callGeminiProxy_001_try env_proxy_blank
         (proxy_request_001 (RawPaperDataPrompt ''q'') ''gemini-2.5-pro'' [])
       = Inl empty_response_001"
    by (simp add: callGeminiProxy_001_try_def env_proxy_blank_def response_ok_def
        parse_json_def c)
  have e: "fst (searchPapers_001 env_proxy_blank ''q'') = Inl getRawPaperData_001_error"
    by (simp add: searchPapers_001_def getRawPaperData_001_def callGeminiProxy_001_def d
        try_catch_def searchPapers_001_catch_def getRawPaperData_001_error_def)
  from a b c d e show ?thesis
    by simp
qed

text \<open>
  A second way to the same error: a candidate text \<^verbatim>\<open>1e400\<close> is parsed as infinity, which is
  truthy; \<^verbatim>\<open>JSON.stringify\<close> writes it as \<^verbatim>\<open>null\<close>, and the client finds no text.
\<close>

lemma relay_infinite_text:
  "candidate_text (Some infinite_candidate_value) = Some (JInfinity True)
   \<and> relay_fetch env_relay_infinite \<lparr>request_body = relay_request_body\<rparr> =
       Inr \<lparr>reply_status = 200, reply_value = JObj [(''text'', JNull)]\<rparr>
   \<and> extract_output_001 (JObj [(''text'', JNull)]) = Inl empty_response_001"
proof -
  have a: "candidate_text (Some infinite_candidate_value) = Some (JInfinity True)"
    by (simp add: candidate_text_def infinite_candidate_value_def)
  have b: "relay_fetch env_relay_infinite \<lparr>request_body = relay_request_body\<rparr> =
       Inr \<lparr>reply_status = 200, reply_value = JObj [(''text'', JNull)]\<rparr>"
    by (simp add: relay_defs env_relay_infinite_def relay_request_body_def
        relay_request_value_def infinite_candidate_body_def infinite_candidate_value_def)
  have c: "extract_output_001 (JObj [(''text'', JNull)]) = Inl empty_response_001"
    by (simp add: extract_output_001_def or_js_def candidate_text_def trim_def)
  from a b c show ?thesis
    by (intro conjI)
qed

text \<open>
  C9, amended. When the request is read, the key is set, the backend answers and its body is
  JSON: a candidate text that is absent or falsy makes the relay answer with status 200 and
  \<^verbatim>\<open>{"text":"No response"}\<close>, from which the client extracts \<^verbatim>\<open>No response\<close>; a truthy
  candidate text is passed on in a reply of status 200 as \<^verbatim>\<open>JSON.stringify\<close> writes it, a
  non-empty string unchanged. The text of the reply is always present and never the empty
  string; it is truthy unless the candidate text is an infinite number, sent as \<^verbatim>\<open>null\<close>.
  The client throws its empty-response error on the reply exactly when the candidate text is
  a non-empty string of white space or an infinite number. Stage 1 of the proxy client
  never returns the empty string.
\<close>

theorem relay_no_response:
  assumes request: "JSON_parse E (request_body request) = Some body" "body \<noteq> JNull"
    and key: "GEMINI_API_KEY E = Some k" "k \<noteq> []"
    and upstream: "upstream_fetch E
                     \<lparr>upstream_model = get_prop (Some body) ''model'', upstream_key = k,
                      upstream_prompt = get_prop (Some body) ''prompt'',
                      upstream_config = get_prop (Some body) ''config''\<rparr> = Inr response"
    and result: "JSON_parse E (body_text response) = Some result"
  shows "(\<not> truthy (candidate_text (Some result)) \<longrightarrow>
            relay_fetch E request =
              Inr \<lparr>reply_status = 200, reply_value = JObj [(''text'', JStr ''No response'')]\<rparr>)
       \<and> (candidate_text (Some result) = Some t \<and> truthy (Some t) \<longrightarrow>
            relay_fetch E request =
              Inr \<lparr>reply_status = 200, reply_value = JObj [(''text'', serialised t)]\<rparr>)
       \<and> (candidate_text (Some result) = Some (JStr s) \<and> s \<noteq> [] \<longrightarrow>
            relay_fetch E request =
              Inr \<lparr>reply_status = 200, reply_value = JObj [(''text'', JStr s)]\<rparr>)
       \<and> (\<exists>sent. relay_fetch E request =
                    Inr \<lparr>reply_status = 200, reply_value = JObj [(''text'', sent)]\<rparr>
              \<and> (truthy (Some sent)
                  \<or> sent = JNull
                    \<and> (\<exists>positive. candidate_text (Some result) = Some (JInfinity positive))))
       \<and> (truthy (Some t) \<longrightarrow>
            (extract_output_001 (JObj [(''text'', serialised t)]) = Inl empty_response_001
               \<longleftrightarrow> (\<exists>s. t = JStr s \<and> trim s = []) \<or> (\<exists>positive. t = JInfinity positive)))
       \<and> (s \<noteq> [] \<longrightarrow>
            extract_output_001 (JObj [(''text'', JStr s)]) =
              (if trim s = [] then Inl empty_response_001 else Inr (trim s)))
       \<and> extract_output_001 (JObj [(''text'', JStr ''No response'')]) = Inr ''No response''
       \<and> (fst (getRawPaperData_001 E' query) = Inr raw \<longrightarrow> raw \<noteq> [])"
proof -
  have reply: "relay_fetch E request =
      Inr \<lparr>reply_status = 200, reply_value = serialised (text_object (relay_text result))\<rparr>"
    using request key upstream result
    by (simp add: relay_fetch_def relay_fetch_try_def parse_json_def try_catch_def)
  have c1: "\<not> truthy (candidate_text (Some result)) \<longrightarrow>
            relay_fetch E request =
              Inr \<lparr>reply_status = 200, reply_value = JObj [(''text'', JStr ''No response'')]\<rparr>"
    by (simp add: reply relay_text_falsy text_object_def)
  have passed: "relay_fetch E request =
              Inr \<lparr>reply_status = 200, reply_value = JObj [(''text'', serialised u)]\<rparr>"
    if "candidate_text (Some result) = Some u" "truthy (Some u)" for u
    using that by (simp add: reply relay_text_def or_js_def text_object_def)
  have c2: "candidate_text (Some result) = Some t \<and> truthy (Some t) \<longrightarrow>
            relay_fetch E request =
              Inr \<lparr>reply_status = 200, reply_value = JObj [(''text'', serialised t)]\<rparr>"
    using passed by blast
  have c3: "candidate_text (Some result) = Some (JStr s) \<and> s \<noteq> [] \<longrightarrow>
            relay_fetch E request =
              Inr \<lparr>reply_status = 200, reply_value = JObj [(''text'', JStr s)]\<rparr>"
    using passed [of "JStr s"] by simp
  have c4: "\<exists>sent. relay_fetch E request =
                    Inr \<lparr>reply_status = 200, reply_value = JObj [(''text'', sent)]\<rparr>
              \<and> (truthy (Some sent)
                  \<or> sent = JNull
                    \<and> (\<exists>positive. candidate_text (Some result) = Some (JInfinity positive)))"
  proof (cases "truthy (candidate_text (Some result))")
    case False
    with c1 show ?thesis
      by auto
  next
    case True
    then obtain u where u: "candidate_text (Some result) = Some u" "truthy (Some u)"
      by (cases "candidate_text (Some result)") auto
    from serialised_truthy [OF u(2)] passed [OF u] u(1) show ?thesis
      by auto
  qed
  have c5: "truthy (Some t) \<longrightarrow>
            (extract_output_001 (JObj [(''text'', serialised t)]) = Inl empty_response_001
               \<longleftrightarrow> (\<exists>s. t = JStr s \<and> trim s = []) \<or> (\<exists>positive. t = JInfinity positive))"
    using serialised_text by blast
  have c6: "s \<noteq> [] \<longrightarrow>
            extract_output_001 (JObj [(''text'', JStr s)]) =
              (if trim s = [] then Inl empty_response_001 else Inr (trim s))"
    by (simp add: extract_output_001_text_only)
  have c7: "extract_output_001 (JObj [(''text'', JStr ''No response'')]) = Inr ''No response''"
    by (simp add: extract_output_001_text_only trim_def is_space_def)
  have c8: "fst (getRawPaperData_001 E' query) = Inr raw \<longrightarrow> raw \<noteq> []"
    using getRawPaperData_001_Inr [of E' query raw] by blast
  from c1 c2 c3 c4 c5 c6 c7 c8 show ?thesis
    by (intro conjI)
qed

theorem relay_no_response_witness:
  "JSON_parse env_relay_blocked relay_request_body = Some relay_request_value
   \<and> relay_request_value \<noteq> JNull
   \<and> GEMINI_API_KEY env_relay_blocked = Some ''k''
   \<and> JSON_parse env_relay_blocked blocked_body = Some blocked_value
   \<and> \<not> truthy (candidate_text (Some blocked_value))
   \<and> relay_fetch env_relay_blocked \<lparr>request_body = relay_request_body\<rparr> =
       Inr \<lparr>reply_status = 200, reply_value = JObj [(''text'', JStr ''No response'')]\<rparr>
   \<and> JSON_parse env_relay_blank blank_candidate_body = Some blank_candidate_value
   \<and> candidate_text (Some blank_candidate_value) = Some (JStr '' '')
   \<and> relay_fetch env_relay_blank \<lparr>request_body = relay_request_body\<rparr> =
       Inr \<lparr>reply_status = 200, reply_value = JObj [(''text'', JStr '' '')]\<rparr>"
proof -
  let ?request = "\<lparr>request_body = relay_request_body\<rparr>"
  let ?upstream = "\<lparr>upstream_model = get_prop (Some relay_request_value) ''model'',
                    upstream_key = ''k'',
                    upstream_prompt = get_prop (Some relay_request_value) ''prompt'',
                    upstream_config = get_prop (Some relay_request_value) ''config''\<rparr>"
  have not_null: "relay_request_value \<noteq> JNull"
    by (simp add: relay_request_value_def)
  have request1: "JSON_parse env_relay_blocked (request_body ?request) = Some relay_request_value"
    by (simp add: env_relay_blocked_def)
  have key1: "GEMINI_API_KEY env_relay_blocked = Some ''k''" "''k'' \<noteq> []"
    by (simp_all add: env_relay_blocked_def)
  have upstream1: "upstream_fetch env_relay_blocked ?upstream
                   = Inr \<lparr>status = 200, body_text = blocked_body\<rparr>"
    by (simp add: env_relay_blocked_def)
  have result1: "JSON_parse env_relay_blocked
                   (body_text \<lparr>status = 200, body_text = blocked_body\<rparr>) = Some blocked_value"
    by (simp add: env_relay_blocked_def blocked_body_def relay_request_body_def)
  have falsy: "\<not> truthy (candidate_text (Some blocked_value))"
    by (simp add: candidate_text_def blocked_value_def)
  from relay_no_response [OF request1 not_null key1 upstream1 result1, THEN conjunct1] falsy
  have no_response: "relay_fetch env_relay_blocked ?request =
       Inr \<lparr>reply_status = 200, reply_value = JObj [(''text'', JStr ''No response'')]\<rparr>"
    by (rule mp)
  have request2: "JSON_parse env_relay_blank (request_body ?request) = Some relay_request_value"
    by (simp add: env_relay_blank_def)
  have key2: "GEMINI_API_KEY env_relay_blank = Some ''k''"
    by (simp add: env_relay_blank_def)
  have upstream2: "upstream_fetch env_relay_blank ?upstream
                   = Inr \<lparr>status = 200, body_text = blank_candidate_body\<rparr>"
    by (simp add: env_relay_blank_def)
  have result2: "JSON_parse env_relay_blank
                   (body_text \<lparr>status = 200, body_text = blank_candidate_body\<rparr>)
                 = Some blank_candidate_value"
    by (simp add: env_relay_blank_def blank_candidate_body_def relay_request_body_def)
  have blank: "candidate_text (Some blank_candidate_value) = Some (JStr '' '')"
    by (simp add: candidate_text_def blank_candidate_value_def)
  then have truthy_blank: "candidate_text (Some blank_candidate_value) = Some (JStr '' '') \<and> '' '' \<noteq> []"
    by simp
  from relay_no_response [OF request2 not_null key2 key1(2) upstream2 result2,
      THEN conjunct2, THEN conjunct2, THEN conjunct1] truthy_blank
  have passed: "relay_fetch env_relay_blank ?request =
       Inr \<lparr>reply_status = 200, reply_value = JObj [(''text'', JStr '' '')]\<rparr>"
    by (rule mp)
  from request1 result1 request2 result2
  have parsed: "JSON_parse env_relay_blocked relay_request_body = Some relay_request_value"
    "JSON_parse env_relay_blocked blocked_body = Some blocked_value"
    "JSON_parse env_relay_blank blank_candidate_body = Some blank_candidate_value"
    by simp_all
  from parsed(1) not_null key1(1) parsed(2) falsy no_response parsed(3) blank passed
  show ?thesis
    by (intro conjI)
qed


section \<open>The key check\<close>

text \<open>
  C10. \<open>getClient\<close> reads \<^verbatim>\<open>process.env.GEMINI_API_KEY\<close> with no guard. Where \<^verbatim>\<open>process\<close> is not
  defined the key is certainly not set, yet \<open>getClient\<close> throws a \<^verbatim>\<open>ReferenceError\<close> and not
  its configuration error; \<open>getAi\<close> wraps the same access in \<^verbatim>\<open>try\<close> and throws its
  configuration error. No request is sent in either case.
\<close>

theorem getClient_without_process:
  "process_env env_no_process = None
   \<and> getClient env_no_process = Inl (Error ''ReferenceError'' ''process is not defined'')
   \<and> getClient_error \<noteq> Error ''ReferenceError'' ''process is not defined''
   \<and> getAi env_no_process = Inl getAi_error
   \<and> generateSuggestions env_no_process ''q'' = (Inr (JArr []), [])
   \<and> generateComparison env_no_process [] = (Inl generateComparison_error, [])
   \<and> generateKnowledgeGraph env_no_process [] = (Inl generateKnowledgeGraph_error, [])
   \<and> searchPapers env_no_process ''q'' = (Inl getAi_error, [])"
proof -
  have a: "process_env env_no_process = None"
    by (simp add: env_no_process_def)
  have b: "getClient env_no_process = Inl (Error ''ReferenceError'' ''process is not defined'')"
    by (simp add: getClient_def a ReferenceError_process_def)
  have c: "getClient_error \<noteq> Error ''ReferenceError'' ''process is not defined''"
    by (simp add: getClient_error_def)
  have d: "getAi env_no_process = Inl getAi_error"
    by (simp add: getAi_def a)
  have calls: "generate_try env_no_process req =
                 (Inl (Error ''ReferenceError'' ''process is not defined''), [])" for req
    by (simp add: generate_try_def b)
  have e: "generateSuggestions env_no_process ''q'' = (Inr (JArr []), [])"
    by (simp add: generateSuggestions_def calls try_catch_def)
  have f: "generateComparison env_no_process [] = (Inl generateComparison_error, [])"
    by (simp add: generateComparison_def calls try_catch_def)
  have g: "generateKnowledgeGraph env_no_process [] = (Inl generateKnowledgeGraph_error, [])"
    by (simp add: generateKnowledgeGraph_def calls try_catch_def)
  have h: "searchPapers env_no_process ''q'' = (Inl getAi_error, [])"
    by (simp add: searchPapers_def d)
  from a b c d e f g h show ?thesis
    by (intro conjI)
qed

text \<open>
  In general: what \<open>getClient\<close> and \<open>getAi\<close> return for every environment, and that no
  operation sends a request when its client is not acquired. With \<^verbatim>\<open>process.env\<close> available,
  an unset or empty key gives the configuration error and a non-empty key gives the client.
\<close>

lemma client_acquisition:
  "getClient E =
     (case process_env E of
        None \<Rightarrow> Inl ReferenceError_process
      | Some vars \<Rightarrow>
          (case vars ''GEMINI_API_KEY'' of
             None \<Rightarrow> Inl getClient_error
           | Some k \<Rightarrow> if k = [] then Inl getClient_error else Inr \<lparr>apiKey = k\<rparr>))"
  "getAi E =
     (case process_env E of
        None \<Rightarrow> Inl getAi_error
      | Some vars \<Rightarrow>
          (case vars ''API_KEY'' of
             None \<Rightarrow> Inl getAi_error
           | Some k \<Rightarrow> if k = [] then Inl getAi_error else Inr \<lparr>apiKey = k\<rparr>))"
  "getClient E = Inl e \<Longrightarrow>
     snd (generateSuggestions E query) = [] \<and> snd (generateComparison E papers) = [] \<and>
     snd (generateKnowledgeGraph E papers) = [] \<and> snd (generateSinglePaperAnalysis E paper) = []"
  "getAi E = Inl e \<Longrightarrow> searchPapers E query = (Inl e, [])"
  by (auto simp: getClient_def getAi_def generateSuggestions_def generateComparison_def
      generateKnowledgeGraph_def generateSinglePaperAnalysis_def generate_try_def
      searchPapers_def split: option.splits)

theorem client_key_check:
  assumes env: "process_env E = Some vars"
  shows "(vars ''GEMINI_API_KEY'' = None \<or> vars ''GEMINI_API_KEY'' = Some []
            \<longrightarrow> getClient E = Inl getClient_error
              \<and> snd (generateSuggestions E query) = []
              \<and> snd (generateComparison E papers) = []
              \<and> snd (generateKnowledgeGraph E papers) = []
              \<and> snd (generateSinglePaperAnalysis E paper) = [])
       \<and> (vars ''API_KEY'' = None \<or> vars ''API_KEY'' = Some []
            \<longrightarrow> getAi E = Inl getAi_error \<and> searchPapers E query = (Inl getAi_error, []))
       \<and> (\<forall>k. vars ''GEMINI_API_KEY'' = Some k \<and> k \<noteq> [] \<longrightarrow> getClient E = Inr \<lparr>apiKey = k\<rparr>)
       \<and> (\<forall>k. vars ''API_KEY'' = Some k \<and> k \<noteq> [] \<longrightarrow> getAi E = Inr \<lparr>apiKey = k\<rparr>)"
proof -
  have no_client: "getClient E = Inl getClient_error"
    if "vars ''GEMINI_API_KEY'' = None \<or> vars ''GEMINI_API_KEY'' = Some []"
    using that env by (auto simp: getClient_def)
  then have no_calls: "generate_try E req = (Inl getClient_error, [])"
    if "vars ''GEMINI_API_KEY'' = None \<or> vars ''GEMINI_API_KEY'' = Some []" for req
    using that by (simp add: generate_try_def)
  have no_ai: "getAi E = Inl getAi_error"
    if "vars ''API_KEY'' = None \<or> vars ''API_KEY'' = Some []"
    using that env by (auto simp: getAi_def)
  have client: "getClient E = Inr \<lparr>apiKey = k\<rparr>"
    if "vars ''GEMINI_API_KEY'' = Some k" "k \<noteq> []" for k
    using that env by (simp add: getClient_def)
  have ai: "getAi E = Inr \<lparr>apiKey = k\<rparr>" if "vars ''API_KEY'' = Some k" "k \<noteq> []" for k
    using that env by (simp add: getAi_def)
  show ?thesis
    using no_client no_calls no_ai client ai
    by (simp add: generateSuggestions_def generateComparison_def generateKnowledgeGraph_def
        generateSinglePaperAnalysis_def searchPapers_def)
qed

theorem client_key_check_witness:
  "process_env env_no_key = Some Map.empty
   \<and> getClient env_no_key = Inl getClient_error
   \<and> snd (generateSuggestions env_no_key ''q'') = []
   \<and> snd (generateComparison env_no_key []) = []
   \<and> getAi env_no_key = Inl getAi_error
   \<and> searchPapers env_no_key ''q'' = (Inl getAi_error, [])
   \<and> getClient env_backend_down = Inr \<lparr>apiKey = ''k''\<rparr>
   \<and> getAi env_backend_down = Inr \<lparr>apiKey = ''k''\<rparr>"
proof -
  have a: "process_env env_no_key = Some Map.empty"
    by (simp add: env_no_key_def)
  have b: "process_env env_backend_down = Some [''GEMINI_API_KEY'' \<mapsto> ''k'', ''API_KEY'' \<mapsto> ''k'']"
    by (simp add: env_backend_down_def)
  from client_key_check [OF a, of "''q''" "[]"] client_key_check [OF b] a
  show ?thesis
    by simp
qed

end
